theory Spec2Isabelle
  imports Main
begin


section \<open>Python values, strings and dictionaries\<close>

text \<open>
  The program is one Python module, \<^verbatim>\<open>plots.py\<close>. It walks a directory tree
  \<^verbatim>\<open>PlotID/YYYYMMDD\<close>, reads image tags through the external program
  \<^verbatim>\<open>exiftool\<close> and tabulates the result with pandas. The embedding keeps the
  module's own control flow. What the module obtains from outside is a parameter:
  the file system, the external process, the JSON decoder, the date parser and the
  string formatter are the fields of the record \<open>world\<close>, the pandas operations of the two aggregation
  functions are the fields of the record \<open>pandas\<close>. A theorem with a free \<open>w\<close> or
  \<open>P\<close> holds for every file system, every tool and every such library.

  Strings are \<open>char list\<close>: a character is a code point below 256. Console output
  (\<^verbatim>\<open>print\<close>) is modelled for \<^verbatim>\<open>compare_band_assignments\<close> and its caller
  \<^verbatim>\<open>create_band_table\<close> only, where a property is about the printed error.
\<close>

text \<open>
  The values \<^verbatim>\<open>json.loads\<close> produces and the table cells built from them.
  JSON numbers are integers here: the module computes with no tag value, it only
  compares, copies and prints them. \<open>PNone\<close> is Python's \<^verbatim>\<open>None\<close> and also
  the missing cell (\<^verbatim>\<open>NaN\<close>) of a table. A JSON object is the association list of
  its keys.
\<close>

datatype pyval =
    PNone
  | PBool bool
  | PInt int
  | PStr string
  | PList "pyval list"
  | PDict "(string \<times> pyval) list"

text \<open>
  The exceptions that can arise inside the module. \<^verbatim>\<open>TimeoutExpired\<close> is a
  \<^verbatim>\<open>subprocess.SubprocessError\<close>; \<^verbatim>\<open>FileNotFoundError\<close> and
  \<^verbatim>\<open>PermissionError\<close> are the two \<^verbatim>\<open>OSError\<close>s that starting a process can
  raise (no program of that name, a program that may not be executed);
  \<^verbatim>\<open>UnicodeDecodeError\<close> arises when \<^verbatim>\<open>text=True\<close> meets output that is not
  text.
\<close>

datatype pyexn =
    TimeoutExpired
  | FileNotFoundError
  | PermissionError
  | UnicodeDecodeError
  | JSONDecodeError
  | IndexError
  | KeyError
  | TypeError
  | AttributeError
  | ValueError

text \<open>\<^verbatim>\<open>s.endswith(suf)\<close> and \<^verbatim>\<open>s.startswith(pre)\<close>.\<close>

definition endswith :: "string \<Rightarrow> string \<Rightarrow> bool" where
  "endswith s suf = (length suf \<le> length s \<and> drop (length s - length suf) s = suf)"

definition startswith :: "string \<Rightarrow> string \<Rightarrow> bool" where
  "startswith s pre = (take (length pre) s = pre)"

text \<open>
  \<^verbatim>\<open>s.lower()\<close> on code points below 256: the ASCII capitals and the Latin-1
  capitals (all of 192..222 but the multiplication sign 215) move up by 32.
\<close>

definition lower_char :: "char \<Rightarrow> char" where
  "lower_char c =
     (let n = (of_char c :: nat)
      in if (65 \<le> n \<and> n \<le> 90) \<or> (192 \<le> n \<and> n \<le> 222 \<and> n \<noteq> 215)
         then char_of (n + 32) else c)"

definition lower :: "string \<Rightarrow> string" where
  "lower s = map lower_char s"

text \<open>
  \<^verbatim>\<open>s.strip()\<close> is truthy when some character of \<open>s\<close> is not white space.
  Python's white space below 256: 9..13, 28..32, 133 and 160.
\<close>

definition is_space :: "char \<Rightarrow> bool" where
  "is_space c =
     (let n = (of_char c :: nat)
      in (9 \<le> n \<and> n \<le> 13) \<or> (28 \<le> n \<and> n \<le> 32) \<or> n = 133 \<or> n = 160)"

definition strip_nonempty :: "string \<Rightarrow> bool" where
  "strip_nonempty s = (\<exists>c \<in> set s. \<not> is_space c)"

text \<open>\<^verbatim>\<open>str(n)\<close> for an integer: decimal digits, a minus sign when negative.\<close>

fun str_nat :: "nat \<Rightarrow> string" where
  "str_nat n =
     (if n < 10 then [char_of (48 + n)]
      else str_nat (n div 10) @ [char_of (48 + n mod 10)])"

declare str_nat.simps [simp del]

definition str_int :: "int \<Rightarrow> string" where
  "str_int i = (if i < 0 then CHR ''-'' # str_nat (nat (- i)) else str_nat (nat i))"

text \<open>
  A Python \<^verbatim>\<open>dict\<close> with string keys, in insertion order: assigning to a key that
  is present replaces the value in place, a new key goes to the end.
\<close>

type_synonym pydict = "(string \<times> pyval) list"

fun dict_set :: "string \<Rightarrow> 'v \<Rightarrow> (string \<times> 'v) list \<Rightarrow> (string \<times> 'v) list" where
  "dict_set k v [] = [(k, v)]"
| "dict_set k v ((k', v') # d) =
     (if k = k' then (k', v) # d else (k', v') # dict_set k v d)"

text \<open>\<^verbatim>\<open>d.get(k)\<close>: the value, \<^verbatim>\<open>None\<close> when the key is absent.\<close>

definition dict_get :: "pydict \<Rightarrow> string \<Rightarrow> pyval" where
  "dict_get d k = (case map_of d k of None \<Rightarrow> PNone | Some v \<Rightarrow> v)"

text \<open>\<^verbatim>\<open>{field: None for field in fields}\<close>.\<close>

definition none_dict :: "string list \<Rightarrow> pydict" where
  "none_dict flds = foldl (\<lambda>d f. dict_set f PNone d) [] flds"

section \<open>The world outside the module\<close>

text \<open>
  A path is its list of components; \<^verbatim>\<open>p / name\<close> appends one, \<^verbatim>\<open>p.name\<close>
  is the last, \<^verbatim>\<open>str(p)\<close> joins them with a slash.
\<close>

type_synonym path = "string list"

definition path_name :: "path \<Rightarrow> string" where
  "path_name p = (if p = [] then [] else last p)"

fun path_str :: "path \<Rightarrow> string" where
  "path_str [] = ''.''"
| "path_str [c] = c"
| "path_str (c # cs) = c @ ''/'' @ path_str cs"

text \<open>
  One call of \<^verbatim>\<open>subprocess.run(argv, capture_output=True, text=True, timeout=t)\<close>
  and what it yields: a completed process (return code, standard output, standard
  error) or an exception.
\<close>

record call =
  argv :: "string list"
  timeout :: nat

datatype proc_outcome =
    Completed int string string
  | Raises pyexn

text \<open>
  \<open>w_glob d pat\<close> is \<^verbatim>\<open>list(d.glob(pat))\<close>; \<open>w_walk d\<close> is \<^verbatim>\<open>os.walk(d)\<close>, each
  triple giving a directory by its path relative to \<open>d\<close>, with its subdirectory and
  file names; \<open>w_json_loads\<close> is \<^verbatim>\<open>json.loads\<close>, \<open>None\<close> for a
  \<^verbatim>\<open>JSONDecodeError\<close>; \<open>w_to_datetime_ymd\<close> is
  \<^verbatim>\<open>pd.to_datetime(s, format='%Y%m%d')\<close>, \<open>None\<close> for a \<^verbatim>\<open>ValueError\<close>, a
  time stamp being a number of nanoseconds; \<open>w_percent s n\<close> is the printf-style
  formatting \<^verbatim>\<open>s % n\<close> of a string \<open>s\<close> that holds a percent sign with the
  integer \<open>n\<close>, which yields a string or raises. File-system calls are taken to
  succeed, and a call of the tool with the same arguments and time limit to have the
  same outcome.
\<close>

record world =
  w_iterdir :: "path \<Rightarrow> path list"
  w_is_dir :: "path \<Rightarrow> bool"
  w_exists :: "path \<Rightarrow> bool"
  w_glob :: "path \<Rightarrow> string \<Rightarrow> path list"
  w_walk :: "path \<Rightarrow> (path \<times> string list \<times> string list) list"
  w_run :: "call \<Rightarrow> proc_outcome"
  w_json_loads :: "string \<Rightarrow> pyval option"
  w_to_datetime_ymd :: "string \<Rightarrow> int option"
  w_percent :: "string \<Rightarrow> int \<Rightarrow> pyexn + string"

section \<open>extract_tif_metadata\<close>

text \<open>\<^verbatim>\<open>[f for f in files if not f.name.endswith('_cog.tif')]\<close>.\<close>

definition not_cog :: "path list \<Rightarrow> path list" where
  "not_cog files = filter (\<lambda>f. \<not> endswith (path_name f) ''_cog.tif'') files"

text \<open>The loop over the conventional subdirectories, extending \<open>tif_files\<close>.\<close>

fun search_subdirs :: "world \<Rightarrow> path \<Rightarrow> string list \<Rightarrow> path list \<Rightarrow> path list" where
  "search_subdirs w d [] tif_files = tif_files"
| "search_subdirs w d (subdir # rest) tif_files =
     (let potential_path = d @ [subdir]
      in if w_exists w potential_path
         then search_subdirs w d rest (tif_files @ not_cog (w_glob w potential_path ''*.tif''))
         else search_subdirs w d rest tif_files)"

definition tif_subdirs :: "string list" where
  "tif_subdirs = [''imagery'', ''rgb'', ''multispec'', ''level0_raw'']"

text \<open>Lines 238 to 258: the three stages that locate candidate files.\<close>

definition find_tif_files :: "world \<Rightarrow> path \<Rightarrow> path list" where
  "find_tif_files w d =
     (let tif_files = not_cog (w_glob w d ''*.tif'')
      in if tif_files \<noteq> [] then tif_files
         else let tif_files = search_subdirs w d tif_subdirs tif_files
              in if tif_files \<noteq> [] then tif_files
                 else take 3 (not_cog (w_glob w d ''**/*.tif'')))"

text \<open>
  \<^verbatim>\<open>json.loads(result.stdout)[0]\<close>: the first item of a list, the first character
  of a string, \<^verbatim>\<open>KeyError\<close> on a dictionary (JSON keys are strings, never \<open>0\<close>),
  \<^verbatim>\<open>TypeError\<close> on anything else.
\<close>

fun first_item :: "pyval \<Rightarrow> pyexn + pyval" where
  "first_item (PList []) = Inl IndexError"
| "first_item (PList (x # xs)) = Inr x"
| "first_item (PStr []) = Inl IndexError"
| "first_item (PStr (c # cs)) = Inr (PStr [c])"
| "first_item (PDict d) = Inl KeyError"
| "first_item v = Inl TypeError"

text \<open>The loop \<^verbatim>\<open>extracted_data[field] = metadata.get(field, None)\<close>.\<close>

fun project_fields :: "pyval \<Rightarrow> string list \<Rightarrow> pydict \<Rightarrow> pyexn + pydict" where
  "project_fields metadata [] acc = Inr acc"
| "project_fields (PDict m) (field # rest) acc =
     project_fields (PDict m) rest (dict_set field (dict_get m field) acc)"
| "project_fields v (field # rest) acc = Inl AttributeError"

text \<open>The \<^verbatim>\<open>except\<close> clause of \<^verbatim>\<open>extract_tif_metadata\<close>.\<close>

fun tif_caught :: "pyexn \<Rightarrow> bool" where
  "tif_caught TimeoutExpired = True"
| "tif_caught JSONDecodeError = True"
| "tif_caught IndexError = True"
| "tif_caught FileNotFoundError = True"
| "tif_caught e = False"

definition exiftool_j :: "string list \<Rightarrow> nat \<Rightarrow> call" where
  "exiftool_j files t = \<lparr>argv = [''exiftool'', ''-j''] @ files, timeout = t\<rparr>"

text \<open>The body of the \<^verbatim>\<open>try\<close> block, exceptions as \<open>Inl\<close>.\<close>

definition tif_try :: "world \<Rightarrow> string \<Rightarrow> path \<Rightarrow> string list \<Rightarrow> pyexn + pydict" where
  "tif_try w first_tif first_path flds =
     (case w_run w (exiftool_j [first_tif] 10) of
        Raises e \<Rightarrow> Inl e
      | Completed returncode out err \<Rightarrow>
          if returncode = 0 \<and> strip_nonempty out
          then (case w_json_loads w out of
                  None \<Rightarrow> Inl JSONDecodeError
                | Some parsed \<Rightarrow>
                    (case first_item parsed of
                       Inl e \<Rightarrow> Inl e
                     | Inr metadata \<Rightarrow>
                         (case project_fields metadata flds [] of
                            Inl e \<Rightarrow> Inl e
                          | Inr extracted_data \<Rightarrow>
                              Inr (dict_set ''metadata_source''
                                     (PStr (path_name first_path)) extracted_data))))
          else Inr (none_dict flds))"

definition extract_tif_metadata :: "world \<Rightarrow> path \<Rightarrow> string list \<Rightarrow> pyexn + pydict" where
  "extract_tif_metadata w directory_path flds =
     (let tif_files = find_tif_files w directory_path
      in if tif_files = [] then Inr (none_dict flds)
         else let first_path = hd tif_files; first_tif = path_str first_path
              in (case tif_try w first_tif first_path flds of
                    Inr r \<Rightarrow> Inr r
                  | Inl e \<Rightarrow> if tif_caught e then Inr (none_dict flds) else Inl e))"

section \<open>parse_directory_structure\<close>

text \<open>
  One row of the visit table. Further columns (\<open>year\<close>, \<open>month\<close>, metadata) are
  the record's extension, so the operations below apply to every table that has
  these three. A date is a time stamp without a time zone, in nanoseconds, as
  \<^verbatim>\<open>pd.to_datetime(s, format='%Y%m%d')\<close> makes it. The functions that read the
  row labels of a table take each row with its label.
\<close>

record visit =
  plot_id :: string
  visit_date :: int
  full_path :: path

definition is_digit :: "char \<Rightarrow> bool" where
  "is_digit c = (48 \<le> (of_char c :: nat) \<and> (of_char c :: nat) \<le> 57)"

text \<open>
  \<^verbatim>\<open>re.compile(r'^\d{8}$').match(s)\<close>: eight digits, then the end of the string
  or one final newline (which \<^verbatim>\<open>$\<close> lets pass).
\<close>

definition date_pattern_match :: "string \<Rightarrow> bool" where
  "date_pattern_match s =
     (list_all is_digit (take 8 s) \<and>
      (length s = 8 \<or> (length s = 9 \<and> s ! 8 = char_of (10::nat))))"

text \<open>
  The inner loop over \<^verbatim>\<open>plot_dir.iterdir()\<close>. A \<^verbatim>\<open>ValueError\<close> of the date
  parser is caught: a warning is printed and the entry skipped.
\<close>

fun scan_date_dirs :: "world \<Rightarrow> string \<Rightarrow> path list \<Rightarrow> visit list \<Rightarrow> visit list" where
  "scan_date_dirs w plot [] data = data"
| "scan_date_dirs w plot (date_dir # rest) data =
     (if w_is_dir w date_dir \<and> date_pattern_match (path_name date_dir)
      then (case w_to_datetime_ymd w (path_name date_dir) of
              Some date \<Rightarrow>
                scan_date_dirs w plot rest
                  (data @ [\<lparr>plot_id = plot, visit_date = date, full_path = date_dir\<rparr>])
            | None \<Rightarrow> scan_date_dirs w plot rest data)
      else scan_date_dirs w plot rest data)"

text \<open>The outer loop over \<^verbatim>\<open>base_path.iterdir()\<close>.\<close>

fun scan_plot_dirs :: "world \<Rightarrow> path list \<Rightarrow> visit list \<Rightarrow> visit list" where
  "scan_plot_dirs w [] data = data"
| "scan_plot_dirs w (plot_dir # rest) data =
     (if w_is_dir w plot_dir
      then scan_plot_dirs w rest
             (scan_date_dirs w (path_name plot_dir) (w_iterdir w plot_dir) data)
      else scan_plot_dirs w rest data)"

definition parse_directory_structure :: "world \<Rightarrow> path \<Rightarrow> visit list" where
  "parse_directory_structure w base_path = scan_plot_dirs w (w_iterdir w base_path) []"

section \<open>filter_date\<close>

text \<open>
  \<^verbatim>\<open>pd.to_datetime(x)\<close> on a bound given by the caller yields a time stamp without
  a time zone (\<open>At\<close>), a time stamp with a time zone (\<open>AtTz\<close>, for a text such as
  \<^verbatim>\<open>2023-01-01T00:00:00Z\<close> that names its zone), the missing time \<^verbatim>\<open>NaT\<close>, or
  raises. The parser is a parameter \<open>to_datetime\<close>.
\<close>

datatype bound = NaT | At int | AtTz int

text \<open>
  \<^verbatim>\<open>df['visit_date'] >= b\<close> and \<^verbatim>\<open>df['visit_date'] <= b\<close> on the column of
  dates, which has no time zone: element by element against a time stamp without a
  time zone, false everywhere against \<^verbatim>\<open>NaT\<close>, and a \<^verbatim>\<open>TypeError\<close> against a
  time stamp with a time zone, whatever the column holds.
\<close>

fun column_ge :: "int list \<Rightarrow> bound \<Rightarrow> pyexn + bool list" where
  "column_ge vs NaT = Inr (map (\<lambda>v. False) vs)"
| "column_ge vs (At b) = Inr (map (\<lambda>v. b \<le> v) vs)"
| "column_ge vs (AtTz b) = Inl TypeError"

fun column_le :: "int list \<Rightarrow> bound \<Rightarrow> pyexn + bool list" where
  "column_le vs NaT = Inr (map (\<lambda>v. False) vs)"
| "column_le vs (At b) = Inr (map (\<lambda>v. v \<le> b) vs)"
| "column_le vs (AtTz b) = Inl TypeError"

text \<open>\<^verbatim>\<open>df.loc[mask]\<close>: the rows whose mask entry is true, in order.\<close>

definition loc_mask :: "'r list \<Rightarrow> bool list \<Rightarrow> 'r list" where
  "loc_mask df msk = map fst (filter snd (zip df msk))"

text \<open>
  The function. In \<^verbatim>\<open>mask &= (df['visit_date'] >= pd.to_datetime(start))\<close> the
  bound is parsed first and the column compared with it next; either step can raise,
  and nothing catches the exception.
\<close>

definition filter_date ::
  "('d \<Rightarrow> pyexn + bound) \<Rightarrow> 'a visit_scheme list \<Rightarrow> 'd option \<Rightarrow> 'd option
     \<Rightarrow> pyexn + 'a visit_scheme list" where
  "filter_date to_datetime df start end' =
     (if start = None \<and> end' = None then Inr df
      else
        let msk = replicate (length df) True;
            msk1 =
              (case start of
                 None \<Rightarrow> Inr msk
               | Some s \<Rightarrow>
                   (case to_datetime s of
                      Inl e \<Rightarrow> Inl e
                    | Inr b \<Rightarrow>
                        (case column_ge (map visit_date df) b of
                           Inl e \<Rightarrow> Inl e
                         | Inr c \<Rightarrow> Inr (map2 (\<and>) msk c))))
        in (case msk1 of
              Inl e \<Rightarrow> Inl e
            | Inr msk \<Rightarrow>
                (case end' of
                   None \<Rightarrow> Inr (loc_mask df msk)
                 | Some t \<Rightarrow>
                     (case to_datetime t of
                        Inl e \<Rightarrow> Inl e
                      | Inr b \<Rightarrow>
                          (case column_le (map visit_date df) b of
                             Inl e \<Rightarrow> Inl e
                           | Inr c \<Rightarrow> Inr (loc_mask df (map2 (\<and>) msk c)))))))"

section \<open>extract_multispec_bands\<close>

definition DEFAULT_FIELDS :: "string list" where
  "DEFAULT_FIELDS = [''FileName'', ''BandName'', ''CentralWavelength'', ''WavelengthFWHM'']"

definition multispec_paths :: "path \<Rightarrow> path list" where
  "multispec_paths directory_path =
     [directory_path @ [''imagery'', ''multispec'', ''level0_raw''],
      directory_path @ [''imagery'', ''multispec''],
      directory_path @ [''multispec'', ''level0_raw''],
      directory_path @ [''multispec''],
      directory_path]"

text \<open>The loop that stops at the first path that exists; \<open>None\<close> when none does.\<close>

fun first_existing :: "world \<Rightarrow> path list \<Rightarrow> path option" where
  "first_existing w [] = None"
| "first_existing w (p # ps) = (if w_exists w p then Some p else first_existing w ps)"

text \<open>
  The loop over \<^verbatim>\<open>range(1, max_band_number + 1)\<close>, globbing \<^verbatim>\<open>*_{i}.tif\<close>.
\<close>

fun pattern_search :: "world \<Rightarrow> path \<Rightarrow> int list \<Rightarrow> path list \<Rightarrow> path list" where
  "pattern_search w valid_path [] band_files = band_files"
| "pattern_search w valid_path (i # rest) band_files =
     (let pattern_files = w_glob w valid_path (''*_'' @ str_int i @ ''.tif'')
      in if pattern_files \<noteq> []
         then pattern_search w valid_path rest (band_files @ pattern_files)
         else pattern_search w valid_path rest band_files)"

text \<open>
  The fallback walk. The inner loop over the file names of one directory stops as
  soon as eleven files are collected; the outer loop over \<^verbatim>\<open>os.walk\<close> stops then
  too. Directories deeper than two levels are skipped, not pruned.
\<close>

fun walk_files :: "path \<Rightarrow> string list \<Rightarrow> path list \<Rightarrow> path list" where
  "walk_files root [] all_tifs = all_tifs"
| "walk_files root (file # rest) all_tifs =
     (if endswith (lower file) ''.tif'' \<and> \<not> endswith (lower file) ''_cog.tif''
      then (let all_tifs = all_tifs @ [root @ [file]]
            in if length all_tifs \<ge> 11 then all_tifs else walk_files root rest all_tifs)
      else walk_files root rest all_tifs)"

fun walk_dirs ::
  "path \<Rightarrow> (path \<times> string list \<times> string list) list \<Rightarrow> path list \<Rightarrow> path list" where
  "walk_dirs valid_path [] all_tifs = all_tifs"
| "walk_dirs valid_path ((rel, dirs, files) # rest) all_tifs =
     (let depth = length rel;
          all_tifs = (if depth \<le> 2 then walk_files (valid_path @ rel) files all_tifs
                      else all_tifs)
      in if length all_tifs \<ge> 11 then all_tifs else walk_dirs valid_path rest all_tifs)"

definition find_band_files :: "world \<Rightarrow> path \<Rightarrow> int \<Rightarrow> path list" where
  "find_band_files w valid_path max_band_number =
     (let band_files = pattern_search w valid_path [1 .. max_band_number] []
      in if band_files \<noteq> [] then band_files
         else walk_dirs valid_path (w_walk w valid_path) [])"

text \<open>
  The keys of the band dictionary are the \<^verbatim>\<open>RigCameraIndex\<close> values: hashable
  scalars. Python finds a key by \<^verbatim>\<open>==\<close>, under which \<^verbatim>\<open>True\<close> is \<open>1\<close> and
  \<^verbatim>\<open>False\<close> is \<open>0\<close>; lists and dictionaries are not hashable.
\<close>

datatype hkey = KNone | KBool bool | KInt int | KStr string

fun as_key :: "pyval \<Rightarrow> hkey option" where
  "as_key PNone = Some KNone"
| "as_key (PBool b) = Some (KBool b)"
| "as_key (PInt i) = Some (KInt i)"
| "as_key (PStr s) = Some (KStr s)"
| "as_key (PList xs) = None"
| "as_key (PDict d) = None"

fun key_num :: "hkey \<Rightarrow> int option" where
  "key_num (KBool b) = Some (if b then 1 else 0)"
| "key_num (KInt i) = Some i"
| "key_num k = None"

definition key_eq :: "hkey \<Rightarrow> hkey \<Rightarrow> bool" where
  "key_eq a b =
     (case (key_num a, key_num b) of
        (Some x, Some y) \<Rightarrow> x = y
      | (None, None) \<Rightarrow> a = b
      | _ \<Rightarrow> False)"

text \<open>\<^verbatim>\<open>str(key)\<close>, as the f-string \<^verbatim>\<open>f"Band{rig_index}_"\<close> forms it.\<close>

fun key_str :: "hkey \<Rightarrow> string" where
  "key_str KNone = ''None''"
| "key_str (KBool b) = (if b then ''True'' else ''False'')"
| "key_str (KInt i) = str_int i"
| "key_str (KStr s) = s"

type_synonym bands = "(hkey \<times> pydict) list"

text \<open>
  \<^verbatim>\<open>bands_metadata[rig_index] = band_data\<close>: an equal key keeps its place and its
  first key object and takes the new value.
\<close>

fun bands_set :: "hkey \<Rightarrow> pydict \<Rightarrow> bands \<Rightarrow> bands" where
  "bands_set k v [] = [(k, v)]"
| "bands_set k v ((k', v') # d) =
     (if key_eq k k' then (k', v) # d else (k', v') # bands_set k v d)"

fun bands_get :: "bands \<Rightarrow> hkey \<Rightarrow> pydict option" where
  "bands_get [] k = None"
| "bands_get ((k', v') # d) k = (if key_eq k k' then Some v' else bands_get d k)"

text \<open>\<^verbatim>\<open>Path(s).name\<close> of a string: the last component that is not empty or a dot.\<close>

fun split_on :: "char \<Rightarrow> string \<Rightarrow> string list" where
  "split_on c [] = [[]]"
| "split_on c (x # xs) =
     (if x = c then [] # split_on c xs
      else (case split_on c xs of
              [] \<Rightarrow> [[x]]
            | y # ys \<Rightarrow> (x # y) # ys))"

definition str_path_name :: "string \<Rightarrow> string" where
  "str_path_name s =
     (let parts = filter (\<lambda>p. p \<noteq> [] \<and> p \<noteq> ''.'') (split_on CHR ''/'' s)
      in if parts = [] then [] else last parts)"

text \<open>
  The dictionary built for one record: \<^verbatim>\<open>filename\<close>, then every requested field
  with \<^verbatim>\<open>metadata.get(field)\<close>.
\<close>

definition band_data :: "string list \<Rightarrow> pydict \<Rightarrow> string \<Rightarrow> pydict" where
  "band_data flds m sf =
     foldl (\<lambda>bd field. dict_set field (dict_get m field) bd)
       [(''filename'', PStr (str_path_name sf))] flds"

text \<open>
  \<^verbatim>\<open>metadata.get('SourceFile', '')\<close> as \<^verbatim>\<open>Path\<close> takes it: the empty string
  when the key is absent, the string when it holds one, and \<open>None\<close> for a value
  that is no string, on which \<^verbatim>\<open>Path\<close> raises \<^verbatim>\<open>TypeError\<close>.
\<close>

definition source_file :: "pydict \<Rightarrow> string option" where
  "source_file m =
     (case map_of m ''SourceFile'' of
        None \<Rightarrow> Some []
      | Some (PStr s) \<Rightarrow> Some s
      | Some v \<Rightarrow> None)"

text \<open>
  The loop over \<^verbatim>\<open>metadata_list\<close>. An item that is no dictionary has no
  \<^verbatim>\<open>get\<close> (\<^verbatim>\<open>AttributeError\<close>); an unhashable index is a \<^verbatim>\<open>TypeError\<close>.
\<close>

fun organize_bands :: "string list \<Rightarrow> pyval list \<Rightarrow> bands \<Rightarrow> pyexn + bands" where
  "organize_bands flds [] bands_metadata = Inr bands_metadata"
| "organize_bands flds (PDict m # rest) bands_metadata =
     (let rig_index = dict_get m ''RigCameraIndex''
      in if rig_index \<noteq> PNone
         then (case source_file m of
                 None \<Rightarrow> Inl TypeError
               | Some sf \<Rightarrow>
                   (case as_key rig_index of
                      None \<Rightarrow> Inl TypeError
                    | Some k \<Rightarrow>
                        organize_bands flds rest
                          (bands_set k (band_data flds m sf) bands_metadata)))
         else organize_bands flds rest bands_metadata)"
| "organize_bands flds (v # rest) bands_metadata = Inl AttributeError"

text \<open>
  What \<^verbatim>\<open>len(metadata_list)\<close> and the \<^verbatim>\<open>for\<close> loop see of the decoded output:
  the items of a list, the characters of a string, the keys of a dictionary;
  anything else has no length.
\<close>

fun iter_items :: "pyval \<Rightarrow> pyexn + pyval list" where
  "iter_items (PList xs) = Inr xs"
| "iter_items (PStr s) = Inr (map (\<lambda>c. PStr [c]) s)"
| "iter_items (PDict d) = Inr (map (\<lambda>kv. PStr (fst kv)) d)"
| "iter_items v = Inl TypeError"

definition exiftool_ver :: call where
  "exiftool_ver = \<lparr>argv = [''exiftool'', ''-ver''], timeout = 5\<rparr>"

text \<open>
  The outer \<^verbatim>\<open>try\<close> block (lines 420 to 480), with the calls of
  \<^verbatim>\<open>subprocess.run\<close> it makes, in order. The version check runs in a
  \<^verbatim>\<open>try\<close> of its own and only prints. A \<^verbatim>\<open>JSONDecodeError\<close> is caught by the
  inner handler, which returns the empty dictionary.
\<close>

definition bands_try ::
  "world \<Rightarrow> string list \<Rightarrow> path list \<Rightarrow> call list \<times> (pyexn + bands)" where
  "bands_try w flds band_files =
     (let file_paths = map path_str band_files;
          first_file = hd file_paths;
          probe = exiftool_j [first_file] 10
      in (case w_run w probe of
            Raises e \<Rightarrow> ([probe], Inl e)
          | Completed returncode out err \<Rightarrow>
              if returncode \<noteq> 0 then ([probe, exiftool_ver], Inr [])
              else
                let batch = exiftool_j file_paths 30
                in (case w_run w batch of
                      Raises e \<Rightarrow> ([probe, batch], Inl e)
                    | Completed returncode out err \<Rightarrow>
                        if returncode \<noteq> 0 \<or> \<not> strip_nonempty out
                        then ([probe, batch], Inr [])
                        else ([probe, batch],
                              (case w_json_loads w out of
                                 None \<Rightarrow> Inr []
                               | Some metadata_list \<Rightarrow>
                                   (case iter_items metadata_list of
                                      Inl e \<Rightarrow> Inl e
                                    | Inr items \<Rightarrow> organize_bands flds items []))))))"

text \<open>
  The function: the calls made and the dictionary returned. The handler
  \<^verbatim>\<open>except Exception\<close> turns every exception of the \<^verbatim>\<open>try\<close> block into the
  empty dictionary.
\<close>

definition extract_multispec_bands ::
  "world \<Rightarrow> path \<Rightarrow> string list option \<Rightarrow> int \<Rightarrow> call list \<times> bands" where
  "extract_multispec_bands w directory_path fields_arg max_band_number =
     (let flds = (case fields_arg of None \<Rightarrow> DEFAULT_FIELDS | Some f \<Rightarrow> f)
      in (case first_existing w (multispec_paths directory_path) of
            None \<Rightarrow> ([], [])
          | Some valid_path \<Rightarrow>
              let band_files = find_band_files w valid_path max_band_number
              in if band_files = [] then ([], [])
                 else (case bands_try w flds band_files of
                         (calls, Inl e) \<Rightarrow> (calls, [])
                       | (calls, Inr bands_metadata) \<Rightarrow> (calls, bands_metadata))))"

section \<open>extract_multispec_analysis\<close>

text \<open>
  A table cell is a decoded tag value or a time stamp; a record of the output table
  is a dictionary of cells.
\<close>

datatype cell = Val pyval | Stamp int

type_synonym row = "(string \<times> cell) list"

text \<open>
  A pandas table: its column names and its rows. \<^verbatim>\<open>pd.DataFrame(data)\<close> takes
  the keys of the records, in order of first appearance, as columns;
  \<^verbatim>\<open>pd.DataFrame()\<close> has neither columns nor rows; \<^verbatim>\<open>df.empty\<close> holds when
  one of the two is missing.
\<close>

record dataframe =
  df_columns :: "string list"
  df_rows :: "row list"

definition DataFrame :: "row list \<Rightarrow> dataframe" where
  "DataFrame data =
     \<lparr>df_columns = foldl (\<lambda>cols k. if k \<in> set cols then cols else cols @ [k]) []
                      (concat (map (map fst) data)),
      df_rows = data\<rparr>"

definition empty_frame :: dataframe where
  "empty_frame = \<lparr>df_columns = [], df_rows = []\<rparr>"

definition frame_empty :: "dataframe \<Rightarrow> bool" where
  "frame_empty df = (df_columns df = [] \<or> df_rows df = [])"

text \<open>
  The inner loops that add the columns \<^verbatim>\<open>Band{index}_{field}\<close> of one band and
  of all bands.
\<close>

fun add_band_fields :: "string \<Rightarrow> pydict \<Rightarrow> string list \<Rightarrow> row \<Rightarrow> row" where
  "add_band_fields prefix band [] rec = rec"
| "add_band_fields prefix band (field # rest) rec =
     (if field \<noteq> ''RigCameraIndex''
      then add_band_fields prefix band rest
             (dict_set (prefix @ field) (Val (dict_get band field)) rec)
      else add_band_fields prefix band rest rec)"

fun add_bands :: "bands \<Rightarrow> string list \<Rightarrow> row \<Rightarrow> row" where
  "add_bands [] flds rec = rec"
| "add_bands ((rig_index, band) # rest) flds rec =
     add_bands rest flds
       (add_band_fields (''Band'' @ key_str rig_index @ ''_'') band flds rec)"

text \<open>The record of one visit, from its row and its band dictionary.\<close>

definition visit_record :: "'a visit_scheme \<Rightarrow> string list \<Rightarrow> bands \<Rightarrow> row" where
  "visit_record r flds bands_metadata =
     (let rec = [(''plot_id'', Val (PStr (plot_id r))),
                    (''visit_date'', Stamp (visit_date r)),
                    (''full_path'', Val (PStr (path_str (full_path r))))]
      in if bands_metadata \<noteq> []
         then (let first_band = snd (hd bands_metadata);
                   rec = dict_set ''Software'' (Val (dict_get first_band ''Software'')) rec;
                   rec = dict_set ''SwVersion'' (Val (dict_get first_band ''SwVersion'')) rec
               in add_bands bands_metadata flds rec)
         else rec)"

text \<open>
  A row label of the input table, as \<^verbatim>\<open>plot_df.iterrows()\<close> hands it to the loop:
  an integer (the labels 0, 1, 2 and so on of a table built by
  \<^verbatim>\<open>pd.DataFrame(data)\<close>, or what is left of them after filtering) or a string
  (a table indexed by a text column).
\<close>

datatype label = IntLabel int | StrLabel string

fun int_label :: "label \<Rightarrow> bool" where
  "int_label (IntLabel i) = True"
| "int_label (StrLabel s) = False"

text \<open>
  \<^verbatim>\<open>idx % n\<close> for a positive \<open>n\<close>: the remainder of an integer; for a string
  the printf-style formatting, which raises \<^verbatim>\<open>TypeError\<close> (not all arguments
  converted) when the string holds no percent sign and is the world's \<open>w_percent\<close>
  otherwise. \<^verbatim>\<open>idx > 0\<close> is a \<^verbatim>\<open>TypeError\<close> for a string.
\<close>

fun label_mod :: "world \<Rightarrow> label \<Rightarrow> int \<Rightarrow> pyexn + pyval" where
  "label_mod w (IntLabel i) n = Inr (PInt (i mod n))"
| "label_mod w (StrLabel s) n =
     (if CHR ''%'' \<in> set s
      then (case w_percent w s n of Inl e \<Rightarrow> Inl e | Inr t \<Rightarrow> Inr (PStr t))
      else Inl TypeError)"

fun label_positive :: "label \<Rightarrow> pyexn + bool" where
  "label_positive (IntLabel i) = Inr (0 < i)"
| "label_positive (StrLabel s) = Inl TypeError"

text \<open>
  The loop over \<^verbatim>\<open>plot_df.iterrows()\<close>, appending one record per row. Line 518
  computes \<^verbatim>\<open>idx % 5\<close> before anything else is done for the row, and line 549
  computes \<^verbatim>\<open>idx > 0\<close>, and \<^verbatim>\<open>idx % 10\<close> if that holds, after the record is
  appended; an exception of either leaves the function. What the two tests decide is
  only whether progress is printed; the printing itself (\<^verbatim>\<open>strftime\<close> of the
  time stamp, \<^verbatim>\<open>idx + 1\<close> of an integer label) does not raise.
\<close>

fun analysis_loop ::
  "world \<Rightarrow> string list \<Rightarrow> int \<Rightarrow> (label \<times> 'a visit_scheme) list \<Rightarrow> row list
     \<Rightarrow> pyexn + row list" where
  "analysis_loop w flds max_band_number [] data = Inr data"
| "analysis_loop w flds max_band_number ((idx, r) # rest) data =
     (case label_mod w idx 5 of
        Inl e \<Rightarrow> Inl e
      | Inr m \<Rightarrow>
          (let bands_metadata =
                 snd (extract_multispec_bands w (full_path r) (Some flds) max_band_number);
               data = data @ [visit_record r flds bands_metadata]
           in (case label_positive idx of
                 Inl e \<Rightarrow> Inl e
               | Inr positive \<Rightarrow>
                   (case (if positive then label_mod w idx 10 else Inr (PBool False)) of
                      Inl e \<Rightarrow> Inl e
                    | Inr m10 \<Rightarrow> analysis_loop w flds max_band_number rest data))))"

text \<open>
  The function: the table made of the records, one row each, in order, or the
  exception that left the loop.
\<close>

definition extract_multispec_analysis ::
  "world \<Rightarrow> (label \<times> 'a visit_scheme) list \<Rightarrow> string list option \<Rightarrow> int
     \<Rightarrow> pyexn + dataframe" where
  "extract_multispec_analysis w plot_df fields_arg max_band_number =
     (let flds = (case fields_arg of None \<Rightarrow> DEFAULT_FIELDS | Some f \<Rightarrow> f)
      in (case analysis_loop w flds max_band_number plot_df [] of
            Inl e \<Rightarrow> Inl e
          | Inr data \<Rightarrow> Inr (DataFrame data)))"

text \<open>
  The cell of a row in a column: missing (\<^verbatim>\<open>NaN\<close>) when the record of the row has
  no such key.
\<close>

definition row_cell :: "row \<Rightarrow> string \<Rightarrow> cell" where
  "row_cell r col = (case map_of r col of None \<Rightarrow> Val PNone | Some c \<Rightarrow> c)"

section \<open>compare_band_assignments and create_band_table\<close>

text \<open>
  A pivot table: row labels, column labels and the cell at a pair of labels, missing
  where the pair was not observed.
\<close>

record pivot =
  pv_index :: "cell list"
  pv_columns :: "cell list"
  pv_at :: "cell \<Rightarrow> cell \<Rightarrow> cell"

definition empty_pivot :: pivot where
  "empty_pivot = \<lparr>pv_index = [], pv_columns = [], pv_at = (\<lambda>r c. Val PNone)\<rparr>"

text \<open>
  The pandas operations the two functions call, as parameters: \<open>pd_eq\<close> is the
  element-wise \<^verbatim>\<open>==\<close>, \<open>pd_unique\<close> is \<^verbatim>\<open>Series.unique\<close>,
  \<open>pd_value_counts\<close> is \<^verbatim>\<open>Series.value_counts\<close> as its (value, count) items,
  \<open>pd_mode\<close> is \<^verbatim>\<open>Series.mode\<close>, \<open>pd_sort_values\<close> is
  \<^verbatim>\<open>sort_values(keys).reset_index(drop=True)\<close>, \<open>pd_pivot_table df i c v\<close> is
  \<^verbatim>\<open>df.pivot_table(index=i, columns=c, values=v, aggfunc=first)\<close>, and
  \<open>pd_astype_str\<close> is \<^verbatim>\<open>astype(str)\<close> on one cell: the text of the cell, or
  \<open>None\<close> where the conversion keeps a missing value missing. The conversion is
  taken cell by cell; the type that pandas gives a whole column, on which the text
  of a number depends, is not part of a cell.
\<close>

record pandas =
  pd_eq :: "cell \<Rightarrow> cell \<Rightarrow> bool"
  pd_unique :: "cell list \<Rightarrow> cell list"
  pd_value_counts :: "cell list \<Rightarrow> (cell \<times> nat) list"
  pd_mode :: "cell list \<Rightarrow> cell list"
  pd_sort_values :: "string list \<Rightarrow> row list \<Rightarrow> row list"
  pd_pivot_table :: "dataframe \<Rightarrow> string \<Rightarrow> string \<Rightarrow> string \<Rightarrow> pivot"
  pd_astype_str :: "cell \<Rightarrow> string option"

text \<open>\<^verbatim>\<open>s.split('_')[0]\<close> and \<^verbatim>\<open>s.replace(sub, '')\<close>.\<close>

definition before_underscore :: "string \<Rightarrow> string" where
  "before_underscore s = takeWhile (\<lambda>c. c \<noteq> CHR ''_'') s"

function remove_sub :: "string \<Rightarrow> string \<Rightarrow> string" where
  "remove_sub sub s =
     (if sub = [] \<or> s = [] then s
      else if take (length sub) s = sub then remove_sub sub (drop (length sub) s)
      else hd s # remove_sub sub (tl s))"
  by pat_completeness auto
termination
  by (relation "measure (\<lambda>(sub, s). length s)") auto

declare remove_sub.simps [simp del]

text \<open>
  \<^verbatim>\<open>X.mode().iloc[0] if not X.empty else None\<close> for the column \<open>col\<close> of the
  selected rows: selecting a column the table lacks is a \<^verbatim>\<open>KeyError\<close>, the first
  item of an empty mode an \<^verbatim>\<open>IndexError\<close>.
\<close>

definition modal_value :: "pandas \<Rightarrow> string list \<Rightarrow> row list \<Rightarrow> string \<Rightarrow> pyexn + cell" where
  "modal_value P cols sel col =
     (if col \<notin> set cols then Inl KeyError
      else if sel = [] then Inr (Val PNone)
      else (case pd_mode P (map (\<lambda>r. row_cell r col) sel) of
              [] \<Rightarrow> Inl IndexError
            | v # vs \<Rightarrow> Inr v))"

text \<open>The loop over the items of \<^verbatim>\<open>value_counts\<close> for one version and one column.\<close>

fun names_loop ::
  "pandas \<Rightarrow> string list \<Rightarrow> cell \<Rightarrow> row list \<Rightarrow> string \<Rightarrow> string \<Rightarrow> (cell \<times> nat) list
     \<Rightarrow> row list \<Rightarrow> pyexn + row list" where
  "names_loop P cols version version_df band_col band_idx [] summary_data = Inr summary_data"
| "names_loop P cols version version_df band_col band_idx ((band_name, count) # rest)
       summary_data =
     (if band_name \<noteq> Val PNone
      then (let wavelength_col = ''Band'' @ band_idx @ ''_CentralWavelength'';
                fwhm_col = ''Band'' @ band_idx @ ''_WavelengthFWHM'';
                sel = filter (\<lambda>r. pd_eq P (row_cell r band_col) band_name) version_df
            in (case modal_value P cols sel wavelength_col of
                  Inl e \<Rightarrow> Inl e
                | Inr wavelength \<Rightarrow>
                    (case modal_value P cols sel fwhm_col of
                       Inl e \<Rightarrow> Inl e
                     | Inr fwhm \<Rightarrow>
                         names_loop P cols version version_df band_col band_idx rest
                           (summary_data @
                              [[(''Software'', version),
                                (''RigCameraIndex'', Val (PStr band_idx)),
                                (''BandName'', band_name),
                                (''Count'', Val (PInt (int count))),
                                (''CentralWavelength'', wavelength),
                                (''WavelengthFWHM'', fwhm)]]))))
      else names_loop P cols version version_df band_col band_idx rest summary_data)"

text \<open>The loop over the band columns for one version.\<close>

fun band_cols_loop ::
  "pandas \<Rightarrow> string list \<Rightarrow> cell \<Rightarrow> row list \<Rightarrow> string list \<Rightarrow> row list
     \<Rightarrow> pyexn + row list" where
  "band_cols_loop P cols version version_df [] summary_data = Inr summary_data"
| "band_cols_loop P cols version version_df (band_col # rest) summary_data =
     (let band_idx = remove_sub ''Band'' (before_underscore band_col);
          value_counts = pd_value_counts P (map (\<lambda>r. row_cell r band_col) version_df)
      in (case names_loop P cols version version_df band_col band_idx value_counts
                summary_data of
            Inl e \<Rightarrow> Inl e
          | Inr summary_data \<Rightarrow>
              band_cols_loop P cols version version_df rest summary_data))"

text \<open>The loop over the firmware versions.\<close>

fun versions_loop ::
  "pandas \<Rightarrow> dataframe \<Rightarrow> string list \<Rightarrow> cell list \<Rightarrow> row list \<Rightarrow> pyexn + row list" where
  "versions_loop P df band_cols [] summary_data = Inr summary_data"
| "versions_loop P df band_cols (version # rest) summary_data =
     (let version_df = filter (\<lambda>r. pd_eq P (row_cell r ''Software'') version) (df_rows df)
      in (case band_cols_loop P (df_columns df) version version_df band_cols summary_data of
            Inl e \<Rightarrow> Inl e
          | Inr summary_data \<Rightarrow> versions_loop P df band_cols rest summary_data))"

text \<open>The function: what it prints, and the table it returns or the exception.\<close>

definition compare_band_assignments ::
  "pandas \<Rightarrow> dataframe \<Rightarrow> string list \<times> (pyexn + dataframe)" where
  "compare_band_assignments P df =
     (if ''Software'' \<notin> set (df_columns df)
      then ([''Error: Software column not found in DataFrame''], Inr empty_frame)
      else
        let versions = pd_unique P
              (filter (\<lambda>c. c \<noteq> Val PNone) (map (\<lambda>r. row_cell r ''Software'') (df_rows df)));
            band_cols = filter (\<lambda>col. startswith col ''Band'' \<and> endswith col ''_BandName'')
                          (df_columns df)
        in (case versions_loop P df band_cols versions [] of
              Inl e \<Rightarrow> ([], Inl e)
            | Inr summary_data \<Rightarrow>
                let summary_df = DataFrame summary_data
                in if \<not> frame_empty summary_df
                   then ([], Inr (summary_df
                           \<lparr>df_rows := pd_sort_values P [''Software'', ''RigCameraIndex'']
                                         (df_rows summary_df)\<rparr>))
                   else ([], Inr summary_df)))"

text \<open>
  One cell of \<^verbatim>\<open>a.astype(str) + " (" + b.astype(str) + " nm)"\<close>: the
  concatenation when both conversions give text, missing when one of them keeps a
  missing value.
\<close>

definition format_cell :: "pandas \<Rightarrow> cell \<Rightarrow> cell \<Rightarrow> cell" where
  "format_cell P a b =
     (case (pd_astype_str P a, pd_astype_str P b) of
        (Some x, Some y) \<Rightarrow> Val (PStr (x @ '' ('' @ y @ '' nm)''))
      | _ \<Rightarrow> Val PNone)"

text \<open>
  The loop over \<^verbatim>\<open>wavelength_df.columns\<close>. The sum of the two columns is aligned
  on the row labels: a row label the wavelength table lacks gets a missing cell.
\<close>

fun format_columns :: "pandas \<Rightarrow> pivot \<Rightarrow> cell list \<Rightarrow> pivot \<Rightarrow> pivot" where
  "format_columns P wavelength_df [] pivot_df = pivot_df"
| "format_columns P wavelength_df (col # rest) pivot_df =
     (if col \<in> set (pv_columns pivot_df)
      then format_columns P wavelength_df rest
             (pivot_df\<lparr>pv_at := (\<lambda>r c.
                 if c = col
                 then (if r \<in> set (pv_index wavelength_df)
                       then format_cell P (pv_at pivot_df r col) (pv_at wavelength_df r col)
                       else Val PNone)
                 else pv_at pivot_df r c)\<rparr>)
      else format_columns P wavelength_df rest pivot_df)"

definition create_band_table :: "pandas \<Rightarrow> dataframe \<Rightarrow> string list \<times> (pyexn + pivot)" where
  "create_band_table P df =
     (case compare_band_assignments P df of
        (printed, Inl e) \<Rightarrow> (printed, Inl e)
      | (printed, Inr summary_df) \<Rightarrow>
          if frame_empty summary_df then (printed, Inr empty_pivot)
          else
            let pivot_df = pd_pivot_table P summary_df ''Software'' ''RigCameraIndex'' ''BandName'';
                wavelength_df = pd_pivot_table P summary_df ''Software'' ''RigCameraIndex''
                                  ''CentralWavelength''
            in (printed, Inr (format_columns P wavelength_df (pv_columns wavelength_df)
                                pivot_df)))"

section \<open>Example worlds and tables\<close>

text \<open>
  A world with no files, where the tool cannot be started. No row label of the
  examples holds a percent sign, so the formatter \<open>w_percent\<close> is never consulted.
\<close>

definition empty_world :: world where
  "empty_world =
     \<lparr>w_iterdir = (\<lambda>p. []), w_is_dir = (\<lambda>p. False), w_exists = (\<lambda>p. False),
      w_glob = (\<lambda>p pat. []), w_walk = (\<lambda>p. []),
      w_run = (\<lambda>c. Raises FileNotFoundError), w_json_loads = (\<lambda>s. None),
      w_to_datetime_ymd = (\<lambda>s. None), w_percent = (\<lambda>s n. Inl ValueError)\<rparr>"

text \<open>
  A directory \<^verbatim>\<open>v\<close> holding \<^verbatim>\<open>img-cog.tif\<close> and \<^verbatim>\<open>img_cog.tif\<close>; the tool
  cannot be started, or runs out of time.
\<close>

definition cog_world :: world where
  "cog_world = empty_world
     \<lparr>w_glob := (\<lambda>p pat. if p = [''v''] \<and> pat = ''*.tif''
                         then [[''v'', ''img-cog.tif''], [''v'', ''img_cog.tif'']] else [])\<rparr>"

definition timeout_world :: world where
  "timeout_world = cog_world \<lparr>w_run := (\<lambda>c. Raises TimeoutExpired)\<rparr>"

text \<open>
  A directory \<^verbatim>\<open>v\<close> holding one image, \<^verbatim>\<open>img.tif\<close>, in three worlds: the
  program \<^verbatim>\<open>exiftool\<close> found on the search path may not be executed; the tool
  prints bytes that are not text; the tool exits with code 0 and prints the JSON
  object \<^verbatim>\<open>{}\<close> instead of a list of records.
\<close>

definition image_world :: world where
  "image_world = empty_world
     \<lparr>w_glob := (\<lambda>p pat. if p = [''v''] \<and> pat = ''*.tif''
                         then [[''v'', ''img.tif'']] else [])\<rparr>"

definition denied_world :: world where
  "denied_world = image_world \<lparr>w_run := (\<lambda>c. Raises PermissionError)\<rparr>"

definition garbled_world :: world where
  "garbled_world = image_world \<lparr>w_run := (\<lambda>c. Raises UnicodeDecodeError)\<rparr>"

definition object_world :: world where
  "object_world = image_world
     \<lparr>w_run := (\<lambda>c. Completed 0 ''{}'' []),
      w_json_loads := (\<lambda>s. if s = ''{}'' then Some (PDict []) else None)\<rparr>"

text \<open>
  A root with the plot \<^verbatim>\<open>PlotA\<close> (entries \<^verbatim>\<open>20230101\<close>, \<^verbatim>\<open>2023010\<close>,
  \<^verbatim>\<open>20231301\<close>, \<^verbatim>\<open>20230615\<close>), the plot \<^verbatim>\<open>PlotB\<close> (entry \<^verbatim>\<open>badname\<close>)
  and a plain file \<^verbatim>\<open>readme\<close>; the date parser accepts the two calendar dates.
\<close>

definition scan_world :: world where
  "scan_world = empty_world
     \<lparr>w_iterdir := (\<lambda>p.
          if p = [''root'']
          then [[''root'', ''PlotA''], [''root'', ''PlotB''], [''root'', ''readme'']]
          else if p = [''root'', ''PlotA'']
          then [[''root'', ''PlotA'', ''20230101''], [''root'', ''PlotA'', ''2023010''],
                [''root'', ''PlotA'', ''20231301''], [''root'', ''PlotA'', ''20230615'']]
          else if p = [''root'', ''PlotB''] then [[''root'', ''PlotB'', ''badname'']]
          else []),
      w_is_dir := (\<lambda>p. p \<noteq> [''root'', ''readme'']),
      w_to_datetime_ymd := (\<lambda>s.
          if s = ''20230101'' then Some 1672531200000000000
          else if s = ''20230615'' then Some 1686787200000000000
          else None)\<rparr>"

text \<open>
  A directory \<^verbatim>\<open>v\<close> whose only direct file is \<^verbatim>\<open>a_cog.tif\<close>, with five more
  files in \<^verbatim>\<open>v/x\<close>.
\<close>

definition deep_world :: world where
  "deep_world = empty_world
     \<lparr>w_glob := (\<lambda>p pat.
          if p = [''v''] \<and> pat = ''*.tif'' then [[''v'', ''a_cog.tif'']]
          else if p = [''v''] \<and> pat = ''**/*.tif''
          then [[''v'', ''a_cog.tif''], [''v'', ''x'', ''1.tif''], [''v'', ''x'', ''2.tif''],
                [''v'', ''x'', ''b_cog.tif''], [''v'', ''x'', ''3.tif''], [''v'', ''x'', ''4.tif'']]
          else [])\<rparr>"

text \<open>
  A visit directory \<^verbatim>\<open>v\<close> with \<^verbatim>\<open>cam_1.tif\<close>, \<^verbatim>\<open>cam_2.tif\<close> and
  \<^verbatim>\<open>cam_3.tif\<close>. The tool succeeds; of the three records of the batch the first
  and the third carry the index 0 and the second carries none.
\<close>

definition band_world :: world where
  "band_world = empty_world
     \<lparr>w_exists := (\<lambda>p. p = [''v'']),
      w_glob := (\<lambda>p pat.
          if p = [''v''] \<and> pat = ''*_1.tif'' then [[''v'', ''cam_1.tif'']]
          else if p = [''v''] \<and> pat = ''*_2.tif'' then [[''v'', ''cam_2.tif'']]
          else if p = [''v''] \<and> pat = ''*_3.tif'' then [[''v'', ''cam_3.tif'']]
          else []),
      w_run := (\<lambda>c.
          if c = exiftool_j [''v/cam_1.tif''] 10 then Completed 0 ''[probe]'' []
          else if c = exiftool_j [''v/cam_1.tif'', ''v/cam_2.tif'', ''v/cam_3.tif''] 30
          then Completed 0 ''[batch]'' []
          else Raises FileNotFoundError),
      w_json_loads := (\<lambda>s.
          if s = ''[batch]''
          then Some (PList
            [PDict [(''SourceFile'', PStr ''v/cam_1.tif''), (''RigCameraIndex'', PInt 0),
                    (''BandName'', PStr ''Blue''), (''Software'', PStr ''v1.0'')],
             PDict [(''SourceFile'', PStr ''v/cam_2.tif''), (''BandName'', PStr ''Green'')],
             PDict [(''SourceFile'', PStr ''v/cam_3.tif''), (''RigCameraIndex'', PInt 0),
                    (''BandName'', PStr ''Red''), (''Software'', PStr ''v1.0'')]])
          else None)\<rparr>"

text \<open>The same directory, where the tool exits with code 1 on every call.\<close>

definition fail_world :: world where
  "fail_world = band_world \<lparr>w_run := (\<lambda>c. Completed 1 [] ''exiftool: error'')\<rparr>"


text \<open>
  An instance of the pandas operations that follows pandas 2 on tables whose
  firmware versions, band names and wavelengths are text or missing. Values are
  compared by equality; \<open>uniq\<close> keeps first appearances; counts are listed from
  the most frequent down; the modes and the labels of a pivot table are sorted; a
  pivot cell holds the first value of its group, and is missing (\<^verbatim>\<open>NaN\<close>) where
  the group is empty; \<^verbatim>\<open>astype(str)\<close> leaves a text as it is and writes a missing
  cell as the text \<^verbatim>\<open>nan\<close>. What it writes for a cell of another kind depends on
  the type pandas gave the column (a column of integers with a missing cell becomes
  floating point, where 475 reads \<^verbatim>\<open>475.0\<close>), which the cells of this model do
  not record: that text is the parameter \<open>number_str\<close> of the instance.
\<close>

definition uniq :: "'a list \<Rightarrow> 'a list" where
  "uniq xs = foldl (\<lambda>acc x. if x \<in> set acc then acc else acc @ [x]) [] xs"

fun str_less :: "string \<Rightarrow> string \<Rightarrow> bool" where
  "str_less a [] = False"
| "str_less [] (y # ys) = True"
| "str_less (x # xs) (y # ys) =
     ((of_char x :: nat) < of_char y \<or> (x = y \<and> str_less xs ys))"

fun cell_less :: "cell \<Rightarrow> cell \<Rightarrow> bool" where
  "cell_less (Val (PStr a)) (Val (PStr b)) = str_less a b"
| "cell_less (Val (PInt a)) (Val (PInt b)) = (a < b)"
| "cell_less a b = False"

fun insert_cell :: "cell \<Rightarrow> cell list \<Rightarrow> cell list" where
  "insert_cell x [] = [x]"
| "insert_cell x (y # ys) = (if cell_less x y then x # y # ys else y # insert_cell x ys)"

definition sort_cells :: "cell list \<Rightarrow> cell list" where
  "sort_cells xs = foldl (\<lambda>acc x. insert_cell x acc) [] xs"

fun insert_count :: "cell \<times> nat \<Rightarrow> (cell \<times> nat) list \<Rightarrow> (cell \<times> nat) list" where
  "insert_count x [] = [x]"
| "insert_count x (y # ys) = (if snd y < snd x then x # y # ys else y # insert_count x ys)"

definition value_counts2 :: "cell list \<Rightarrow> (cell \<times> nat) list" where
  "value_counts2 xs =
     (let vs = filter (\<lambda>c. c \<noteq> Val PNone) xs
      in foldl (\<lambda>acc x. insert_count x acc) []
           (map (\<lambda>v. (v, length (filter (\<lambda>u. u = v) vs))) (uniq vs)))"

definition mode2 :: "cell list \<Rightarrow> cell list" where
  "mode2 xs =
     (let vs = filter (\<lambda>c. c \<noteq> Val PNone) xs
      in sort_cells (filter (\<lambda>v. list_all (\<lambda>u. length (filter (\<lambda>t. t = u) vs)
                                        \<le> length (filter (\<lambda>t. t = v) vs)) vs) (uniq vs)))"

fun row_less :: "string list \<Rightarrow> row \<Rightarrow> row \<Rightarrow> bool" where
  "row_less [] a b = False"
| "row_less (k # ks) a b =
     (cell_less (row_cell a k) (row_cell b k)
      \<or> (row_cell a k = row_cell b k \<and> row_less ks a b))"

fun insert_row :: "string list \<Rightarrow> row \<Rightarrow> row list \<Rightarrow> row list" where
  "insert_row keys r [] = [r]"
| "insert_row keys r (y # ys) =
     (if row_less keys r y then r # y # ys else y # insert_row keys r ys)"

definition sort_values2 :: "string list \<Rightarrow> row list \<Rightarrow> row list" where
  "sort_values2 keys rows = foldl (\<lambda>acc r. insert_row keys r acc) [] rows"

definition pivot_table2 :: "dataframe \<Rightarrow> string \<Rightarrow> string \<Rightarrow> string \<Rightarrow> pivot" where
  "pivot_table2 df i c v =
     (let keyed = filter (\<lambda>r. row_cell r i \<noteq> Val PNone \<and> row_cell r c \<noteq> Val PNone) (df_rows df);
          at = (\<lambda>ri ci. case filter (\<lambda>r. row_cell r i = ri \<and> row_cell r c = ci) keyed of
                           [] \<Rightarrow> Val PNone
                         | r # rs \<Rightarrow> row_cell r v);
          seen = filter (\<lambda>r. at (row_cell r i) (row_cell r c) \<noteq> Val PNone) keyed
      in \<lparr>pv_index = sort_cells (uniq (map (\<lambda>r. row_cell r i) seen)),
          pv_columns = sort_cells (uniq (map (\<lambda>r. row_cell r c) seen)),
          pv_at = at\<rparr>)"

fun astype_str2 :: "(cell \<Rightarrow> string) \<Rightarrow> cell \<Rightarrow> string option" where
  "astype_str2 number_str (Val PNone) = Some ''nan''"
| "astype_str2 number_str (Val (PStr s)) = Some s"
| "astype_str2 number_str c = Some (number_str c)"

definition pandas2 :: "(cell \<Rightarrow> string) \<Rightarrow> pandas" where
  "pandas2 number_str =
     \<lparr>pd_eq = (\<lambda>a b. a = b), pd_unique = uniq, pd_value_counts = value_counts2,
      pd_mode = mode2, pd_sort_values = sort_values2, pd_pivot_table = pivot_table2,
      pd_astype_str = astype_str2 number_str\<rparr>"

text \<open>
  An analysis table of two visits, its wavelengths held as text: firmware \<^verbatim>\<open>v1\<close>
  with bands 0 and 1, firmware \<^verbatim>\<open>v2\<close> with band 0 only; and the comparison table
  computed from it.
\<close>

definition firmware_table :: dataframe where
  "firmware_table = DataFrame
     [[(''plot_id'', Val (PStr ''P1'')), (''visit_date'', Stamp 0),
       (''full_path'', Val (PStr ''v'')), (''Software'', Val (PStr ''v1'')),
       (''Band0_BandName'', Val (PStr ''Blue'')),
       (''Band0_CentralWavelength'', Val (PStr ''475'')),
       (''Band0_WavelengthFWHM'', Val (PStr ''32'')),
       (''Band1_BandName'', Val (PStr ''Green'')),
       (''Band1_CentralWavelength'', Val (PStr ''560'')),
       (''Band1_WavelengthFWHM'', Val (PStr ''27''))],
      [(''plot_id'', Val (PStr ''P2'')), (''visit_date'', Stamp 1),
       (''full_path'', Val (PStr ''u'')), (''Software'', Val (PStr ''v2'')),
       (''Band0_BandName'', Val (PStr ''Blue'')),
       (''Band0_CentralWavelength'', Val (PStr ''475'')),
       (''Band0_WavelengthFWHM'', Val (PStr ''32''))]]"

definition firmware_summary :: dataframe where
  "firmware_summary =
     \<lparr>df_columns = [''Software'', ''RigCameraIndex'', ''BandName'', ''Count'',
                     ''CentralWavelength'', ''WavelengthFWHM''],
      df_rows =
        [[(''Software'', Val (PStr ''v1'')), (''RigCameraIndex'', Val (PStr ''0'')),
          (''BandName'', Val (PStr ''Blue'')), (''Count'', Val (PInt 1)),
          (''CentralWavelength'', Val (PStr ''475'')), (''WavelengthFWHM'', Val (PStr ''32''))],
         [(''Software'', Val (PStr ''v1'')), (''RigCameraIndex'', Val (PStr ''1'')),
          (''BandName'', Val (PStr ''Green'')), (''Count'', Val (PInt 1)),
          (''CentralWavelength'', Val (PStr ''560'')), (''WavelengthFWHM'', Val (PStr ''27''))],
         [(''Software'', Val (PStr ''v2'')), (''RigCameraIndex'', Val (PStr ''0'')),
          (''BandName'', Val (PStr ''Blue'')), (''Count'', Val (PInt 1)),
          (''CentralWavelength'', Val (PStr ''475'')), (''WavelengthFWHM'', Val (PStr ''32''))]]\<rparr>"

section \<open>Properties of extract_tif_metadata\<close>

lemma search_subdirs_eq:
  "search_subdirs w d subs acc =
     acc @ concat (map (\<lambda>sub. not_cog (w_glob w (d @ [sub]) ''*.tif''))
                    (filter (\<lambda>sub. w_exists w (d @ [sub])) subs))"
  by (induction subs arbitrary: acc) (simp_all add: Let_def)

lemma not_cog_no_suffix: "f \<in> set (not_cog fs) \<Longrightarrow> \<not> endswith (path_name f) ''_cog.tif''"
  by (simp add: not_cog_def)

text \<open>
  Claim C9, as the code has it. The candidate files of \<^verbatim>\<open>extract_tif_metadata\<close>
  come from three stages: the directory itself, not recursively; if that gives
  nothing, the subdirectories \<^verbatim>\<open>imagery\<close>, \<^verbatim>\<open>rgb\<close>, \<^verbatim>\<open>multispec\<close>,
  \<^verbatim>\<open>level0_raw\<close> that exist, accumulated in this order; if that gives nothing
  either, the recursive search cut to its first three matches. Every stage leaves out
  the files whose name ends with \<^verbatim>\<open>_cog.tif\<close>, so no candidate has such a name.
\<close>

theorem find_tif_files_three_stages:
  "find_tif_files w d =
     (let stage1 = not_cog (w_glob w d ''*.tif'');
          stage2 = concat (map (\<lambda>sub. not_cog (w_glob w (d @ [sub]) ''*.tif''))
                     (filter (\<lambda>sub. w_exists w (d @ [sub]))
                        [''imagery'', ''rgb'', ''multispec'', ''level0_raw'']));
          stage3 = take 3 (not_cog (w_glob w d ''**/*.tif''))
      in if stage1 \<noteq> [] then stage1 else if stage2 \<noteq> [] then stage2 else stage3)
   \<and> (\<forall>f \<in> set (find_tif_files w d). \<not> endswith (path_name f) ''_cog.tif'')
   \<and> (not_cog (w_glob w d ''*.tif'') = [] \<longrightarrow>
        (\<forall>sub \<in> set tif_subdirs. w_exists w (d @ [sub]) \<longrightarrow>
            not_cog (w_glob w (d @ [sub]) ''*.tif'') = []) \<longrightarrow>
        length (find_tif_files w d) \<le> 3 \<and>
        find_tif_files w d = take 3 (not_cog (w_glob w d ''**/*.tif'')))"
proof -
  let ?s1 = "not_cog (w_glob w d ''*.tif'')"
  let ?s2 = "concat (map (\<lambda>sub. not_cog (w_glob w (d @ [sub]) ''*.tif''))
                     (filter (\<lambda>sub. w_exists w (d @ [sub])) tif_subdirs))"
  let ?s3 = "take 3 (not_cog (w_glob w d ''**/*.tif''))"
  have eq: "find_tif_files w d = (if ?s1 \<noteq> [] then ?s1 else if ?s2 \<noteq> [] then ?s2 else ?s3)"
    by (simp add: find_tif_files_def Let_def search_subdirs_eq)
  have s2: "\<forall>f \<in> set ?s2. \<not> endswith (path_name f) ''_cog.tif''"
    by (auto dest: not_cog_no_suffix)
  have s3: "\<forall>f \<in> set ?s3. \<not> endswith (path_name f) ''_cog.tif''"
    by (auto dest: in_set_takeD not_cog_no_suffix)
  have s1: "\<forall>f \<in> set ?s1. \<not> endswith (path_name f) ''_cog.tif''"
    by (auto dest: not_cog_no_suffix)
  have A: "\<forall>f \<in> set (find_tif_files w d). \<not> endswith (path_name f) ''_cog.tif''"
    unfolding eq using s1 s2 s3 by presburger
  have B: "?s1 = [] \<longrightarrow>
        (\<forall>sub \<in> set tif_subdirs. w_exists w (d @ [sub]) \<longrightarrow>
            not_cog (w_glob w (d @ [sub]) ''*.tif'') = []) \<longrightarrow>
        length (find_tif_files w d) \<le> 3 \<and> find_tif_files w d = ?s3"
  proof (intro impI)
    assume a: "?s1 = []" and b: "\<forall>sub \<in> set tif_subdirs. w_exists w (d @ [sub]) \<longrightarrow>
            not_cog (w_glob w (d @ [sub]) ''*.tif'') = []"
    from b have "?s2 = []" by auto
    with a eq have "find_tif_files w d = ?s3" by simp
    then show "length (find_tif_files w d) \<le> 3 \<and> find_tif_files w d = ?s3" by simp
  qed
  from eq have eq': "find_tif_files w d =
     (let stage1 = not_cog (w_glob w d ''*.tif'');
          stage2 = concat (map (\<lambda>sub. not_cog (w_glob w (d @ [sub]) ''*.tif''))
                     (filter (\<lambda>sub. w_exists w (d @ [sub]))
                        [''imagery'', ''rgb'', ''multispec'', ''level0_raw'']));
          stage3 = take 3 (not_cog (w_glob w d ''**/*.tif''))
      in if stage1 \<noteq> [] then stage1 else if stage2 \<noteq> [] then stage2 else stage3)"
    by (simp only: Let_def tif_subdirs_def)
  from eq' A B show ?thesis by blast
qed

text \<open>
  A directory whose only direct file is \<^verbatim>\<open>a_cog.tif\<close>, with no conventional
  subdirectory: of the four other files below it the first three are the candidates.
\<close>

theorem find_tif_files_three_stages_witness:
  "not_cog (w_glob deep_world [''v''] ''*.tif'') = []
   \<and> \<not> w_exists deep_world [''v'', ''imagery''] \<and> \<not> w_exists deep_world [''v'', ''rgb'']
   \<and> \<not> w_exists deep_world [''v'', ''multispec'']
   \<and> \<not> w_exists deep_world [''v'', ''level0_raw'']
   \<and> find_tif_files deep_world [''v''] =
       [[''v'', ''x'', ''1.tif''], [''v'', ''x'', ''2.tif''], [''v'', ''x'', ''3.tif'']]
   \<and> length (find_tif_files deep_world [''v'']) \<le> 3"
proof -
  have a: "not_cog (w_glob deep_world [''v''] ''*.tif'') = []"
    by (simp add: deep_world_def empty_world_def not_cog_def endswith_def path_name_def)
  have b: "\<forall>sub \<in> set tif_subdirs. \<not> w_exists deep_world ([''v''] @ [sub])"
    by (simp add: deep_world_def empty_world_def)
  have c: "take 3 (not_cog (w_glob deep_world [''v''] ''**/*.tif'')) =
       [[''v'', ''x'', ''1.tif''], [''v'', ''x'', ''2.tif''], [''v'', ''x'', ''3.tif'']]"
    by (simp add: deep_world_def empty_world_def not_cog_def endswith_def path_name_def)
  from b have b': "\<forall>sub \<in> set tif_subdirs. w_exists deep_world ([''v''] @ [sub]) \<longrightarrow>
      not_cog (w_glob deep_world ([''v''] @ [sub]) ''*.tif'') = []"
    by blast
  note t = conjunct2 [OF conjunct2 [OF find_tif_files_three_stages [of deep_world "[''v'']"]]]
  from t a b' have "length (find_tif_files deep_world [''v'']) \<le> 3 \<and>
      find_tif_files deep_world [''v''] = take 3 (not_cog (w_glob deep_world [''v''] ''**/*.tif''))"
    by blast
  with a c show ?thesis by (simp add: deep_world_def empty_world_def)
qed

lemma map_of_dict_set:
  "map_of (dict_set k v d) k' = (if k' = k then Some v else map_of d k')"
  by (induction d) auto

lemma keys_dict_set: "fst ` set (dict_set k v d) = insert k (fst ` set d)"
proof (induction d)
  case Nil
  show ?case by simp
next
  case (Cons a d)
  then show ?case by (cases a) (simp add: insert_commute)
qed

lemma none_dict_foldl:
  "(\<forall>k v. map_of d k = Some v \<longrightarrow> v = PNone) \<Longrightarrow>
   (\<forall>k v. map_of (foldl (\<lambda>d f. dict_set f PNone d) d fs) k = Some v \<longrightarrow> v = PNone)
   \<and> fst ` set (foldl (\<lambda>d f. dict_set f PNone d) d fs) = fst ` set d \<union> set fs"
proof (induction fs arbitrary: d)
  case Nil
  then show ?case by simp
next
  case (Cons f fs)
  have "\<forall>k v. map_of (dict_set f PNone d) k = Some v \<longrightarrow> v = PNone"
    using Cons.prems by (simp add: map_of_dict_set)
  from Cons.IH [OF this] show ?case by (simp add: keys_dict_set)
qed

lemma none_dict_all_none:
  "f \<in> set flds \<Longrightarrow> map_of (none_dict flds) f = Some PNone"
proof -
  assume f: "f \<in> set flds"
  have h: "(\<forall>k v. map_of (none_dict flds) k = Some v \<longrightarrow> v = PNone)
     \<and> fst ` set (none_dict flds) = set flds"
    using none_dict_foldl [of "[]" flds] by (simp add: none_dict_def)
  with f have "f \<in> fst ` set (none_dict flds)" by simp
  then obtain v where "map_of (none_dict flds) f = Some v"
    by (metis domD dom_map_of_conv_image_fst)
  with h show ?thesis by blast
qed

lemma none_dict_keys: "fst ` set (none_dict flds) = set flds"
  using none_dict_foldl [of "[]" flds] by (simp add: none_dict_def)

text \<open>
  The failures that \<^verbatim>\<open>extract_tif_metadata\<close> does handle. It returns, without
  raising, the dictionary that maps every requested field to \<^verbatim>\<open>None\<close> when the
  three stages find no file, and when the tool fails on the first file found in one
  of these ways: no program of that name or no time left, an exit code other than 0,
  blank output, output that is not JSON, an empty list of records.
\<close>

lemma extract_tif_metadata_absent:
  assumes "find_tif_files w d = [] \<or>
     (case w_run w (exiftool_j [path_str (hd (find_tif_files w d))] 10) of
        Raises e \<Rightarrow> e = TimeoutExpired \<or> e = FileNotFoundError
      | Completed returncode out err \<Rightarrow>
          returncode \<noteq> 0 \<or> \<not> strip_nonempty out \<or> w_json_loads w out = None
          \<or> w_json_loads w out = Some (PList []))"
  shows "extract_tif_metadata w d flds = Inr (none_dict flds)
     \<and> (\<forall>f \<in> set flds. dict_get (none_dict flds) f = PNone
           \<and> map_of (none_dict flds) f = Some PNone)
     \<and> fst ` set (none_dict flds) = set flds"
proof -
  have "extract_tif_metadata w d flds = Inr (none_dict flds)"
  proof (cases "find_tif_files w d = []")
    case True
    then show ?thesis by (simp add: extract_tif_metadata_def)
  next
    case False
    with assms have
      "case w_run w (exiftool_j [path_str (hd (find_tif_files w d))] 10) of
        Raises e \<Rightarrow> e = TimeoutExpired \<or> e = FileNotFoundError
      | Completed returncode out err \<Rightarrow>
          returncode \<noteq> 0 \<or> \<not> strip_nonempty out \<or> w_json_loads w out = None
          \<or> w_json_loads w out = Some (PList [])"
      by simp
    then have "(case tif_try w (path_str (hd (find_tif_files w d))) (hd (find_tif_files w d)) flds of
                  Inr r \<Rightarrow> Inr r
                | Inl e \<Rightarrow> if tif_caught e then Inr (none_dict flds) else Inl e)
               = Inr (none_dict flds)"
      by (auto simp: tif_try_def split: proc_outcome.splits)
    with False show ?thesis by (simp add: extract_tif_metadata_def Let_def)
  qed
  then show ?thesis
    by (simp add: none_dict_all_none none_dict_keys dict_get_def)
qed

text \<open>
  The tool running out of time on the one candidate file, and a directory with no
  file at all.
\<close>

lemma extract_tif_metadata_absent_example:
  "find_tif_files timeout_world [''v''] = [[''v'', ''img-cog.tif'']]
   \<and> w_run timeout_world (exiftool_j [''v/img-cog.tif''] 10) = Raises TimeoutExpired
   \<and> extract_tif_metadata timeout_world [''v''] [''Software'', ''SwVersion'']
       = Inr [(''Software'', PNone), (''SwVersion'', PNone)]
   \<and> extract_tif_metadata empty_world [''v''] [''Software'', ''SwVersion'']
       = Inr [(''Software'', PNone), (''SwVersion'', PNone)]"
proof -
  have f: "find_tif_files timeout_world [''v''] = [[''v'', ''img-cog.tif'']]"
    by (simp add: find_tif_files_def timeout_world_def cog_world_def empty_world_def
        not_cog_def endswith_def path_name_def)
  have e: "find_tif_files empty_world [''v''] = []"
    by (simp add: find_tif_files_def empty_world_def not_cog_def tif_subdirs_def)
  have r: "w_run timeout_world (exiftool_j [''v/img-cog.tif''] 10) = Raises TimeoutExpired"
    by (simp add: timeout_world_def)
  have n: "none_dict [''Software'', ''SwVersion''] = [(''Software'', PNone), (''SwVersion'', PNone)]"
    by (simp add: none_dict_def)
  show ?thesis
    using extract_tif_metadata_absent [of timeout_world "[''v'']" "[''Software'', ''SwVersion'']"]
      extract_tif_metadata_absent [of empty_world "[''v'']" "[''Software'', ''SwVersion'']"]
      f e r n
    by simp
qed

text \<open>
  Claim C9 as it is worded names the reserved suffix \<^verbatim>\<open>-cog\<close>. A file
  \<^verbatim>\<open>img-cog.tif\<close> is not left out: beside \<^verbatim>\<open>img_cog.tif\<close> it is the one
  candidate found.
\<close>

theorem find_tif_files_hyphen_cog_counterexample:
  "endswith (path_name [''v'', ''img-cog.tif'']) ''-cog.tif''
   \<and> find_tif_files cog_world [''v''] = [[''v'', ''img-cog.tif'']]"
  by (simp add: find_tif_files_def cog_world_def empty_world_def
        not_cog_def endswith_def path_name_def)

text \<open>
  Claim C5. The claim has \<^verbatim>\<open>extract_tif_metadata\<close> return every requested field
  as absent, without raising, whenever the call of the tool fails, a process error
  and unparsable output included. The \<^verbatim>\<open>except\<close> clause of line 286 names
  \<^verbatim>\<open>SubprocessError\<close>, \<^verbatim>\<open>JSONDecodeError\<close>, \<^verbatim>\<open>IndexError\<close> and
  \<^verbatim>\<open>FileNotFoundError\<close> only. For a directory with one image, the function
  raises \<^verbatim>\<open>PermissionError\<close> when the tool may not be executed,
  \<^verbatim>\<open>UnicodeDecodeError\<close> when the tool's output is not text, and
  \<^verbatim>\<open>KeyError\<close> when the tool prints a JSON object in place of a list of records.
\<close>

theorem extract_tif_metadata_raises:
  "extract_tif_metadata denied_world [''v''] [''Software'', ''SwVersion'']
     = Inl PermissionError
   \<and> extract_tif_metadata garbled_world [''v''] [''Software'', ''SwVersion'']
       = Inl UnicodeDecodeError
   \<and> extract_tif_metadata object_world [''v''] [''Software'', ''SwVersion'']
       = Inl KeyError"
proof -
  have d: "find_tif_files denied_world [''v''] = [[''v'', ''img.tif'']]"
    and g: "find_tif_files garbled_world [''v''] = [[''v'', ''img.tif'']]"
    and o: "find_tif_files object_world [''v''] = [[''v'', ''img.tif'']]"
    by (simp_all add: find_tif_files_def denied_world_def garbled_world_def object_world_def
        image_world_def empty_world_def not_cog_def endswith_def path_name_def)
  have rd: "w_run denied_world c = Raises PermissionError"
    and rg: "w_run garbled_world c = Raises UnicodeDecodeError"
    and ro: "w_run object_world c = Completed 0 ''{}'' []" for c
    by (simp_all add: denied_world_def garbled_world_def object_world_def)
  have j: "w_json_loads object_world ''{}'' = Some (PDict [])"
    by (simp add: object_world_def)
  have s: "strip_nonempty ''{}''"
    by (simp add: strip_nonempty_def is_space_def)
  have "extract_tif_metadata denied_world [''v''] [''Software'', ''SwVersion'']
     = Inl PermissionError"
    by (simp add: extract_tif_metadata_def d tif_try_def rd)
  moreover have "extract_tif_metadata garbled_world [''v''] [''Software'', ''SwVersion'']
     = Inl UnicodeDecodeError"
    by (simp add: extract_tif_metadata_def g tif_try_def rg)
  moreover have "extract_tif_metadata object_world [''v''] [''Software'', ''SwVersion'']
     = Inl KeyError"
    by (simp add: extract_tif_metadata_def o tif_try_def ro j s)
  ultimately show ?thesis by simp
qed

section \<open>Properties of parse_directory_structure and filter_date\<close>

lemma concat_map_if:
  "concat (map (\<lambda>x. if P x then f x else []) xs) = concat (map f (filter P xs))"
  by (induction xs) simp_all

lemma scan_date_dirs_eq:
  "scan_date_dirs w plot ds data =
     data @ concat (map (\<lambda>date_dir.
        if w_is_dir w date_dir \<and> date_pattern_match (path_name date_dir)
        then (case w_to_datetime_ymd w (path_name date_dir) of
                Some date \<Rightarrow> [\<lparr>plot_id = plot, visit_date = date, full_path = date_dir\<rparr>]
              | None \<Rightarrow> [])
        else []) ds)"
  by (induction ds arbitrary: data) (simp_all split: option.splits)

lemma scan_date_dirs_filter:
  "scan_date_dirs w plot ds data =
     data @ concat (map (\<lambda>date_dir.
        (case w_to_datetime_ymd w (path_name date_dir) of
           Some date \<Rightarrow> [\<lparr>plot_id = plot, visit_date = date, full_path = date_dir\<rparr>]
         | None \<Rightarrow> []))
       (filter (\<lambda>date_dir. w_is_dir w date_dir \<and> date_pattern_match (path_name date_dir)) ds))"
  by (simp add: scan_date_dirs_eq concat_map_if)

lemma scan_plot_dirs_eq:
  "scan_plot_dirs w ps data =
     data @ concat (map (\<lambda>plot_dir.
        concat (map (\<lambda>date_dir.
            (case w_to_datetime_ymd w (path_name date_dir) of
               Some date \<Rightarrow> [\<lparr>plot_id = path_name plot_dir, visit_date = date,
                               full_path = date_dir\<rparr>]
             | None \<Rightarrow> []))
          (filter (\<lambda>date_dir. w_is_dir w date_dir \<and> date_pattern_match (path_name date_dir))
             (w_iterdir w plot_dir))))
       (filter (w_is_dir w) ps))"
  by (induction ps arbitrary: data) (simp_all add: scan_date_dirs_filter)

lemma date_pattern_digits: "date_pattern_match s \<Longrightarrow> length (filter is_digit s) = 8"
proof -
  assume m: "date_pattern_match s"
  then have d: "list_all is_digit (take 8 s)" and
    l: "length s = 8 \<or> (length s = 9 \<and> s ! 8 = char_of (10::nat))"
    by (simp_all add: date_pattern_match_def)
  have t: "length (filter is_digit (take 8 s)) = 8"
    using d l by (auto simp: list_all_iff)
  from l show ?thesis
  proof
    assume "length s = 8"
    with t show ?thesis by simp
  next
    assume a: "length s = 9 \<and> s ! 8 = char_of (10::nat)"
    with id_take_nth_drop [of 8 s] have "s = take 8 s @ [char_of (10::nat)]"
      by simp
    then have "filter is_digit s = filter is_digit (take 8 s) @ filter is_digit [char_of (10::nat)]"
      by (metis filter_append)
    with t show ?thesis by (simp add: is_digit_def)
  qed
qed


lemma date_pattern_eight: "length n = 8 \<Longrightarrow> list_all is_digit n \<Longrightarrow> date_pattern_match n"
  by (simp add: date_pattern_match_def)

text \<open>
  Claim C4. \<^verbatim>\<open>parse_directory_structure\<close> yields, in enumeration order, exactly
  one visit, with the plot's name, the parsed date and the path, for every entry
  \<^verbatim>\<open>plot/date\<close> where both are directories, the name of \<^verbatim>\<open>date\<close> passes the
  eight-digit pattern and the date parser accepts it. A name of eight digits passes
  the pattern; a name whose number of digits is not eight does not; an entry the
  parser rejects yields nothing. With no such entry the result is the empty table.
\<close>

theorem parse_directory_structure_visits:
  "parse_directory_structure w base =
     concat (map (\<lambda>plot_dir.
        concat (map (\<lambda>date_dir.
            (case w_to_datetime_ymd w (path_name date_dir) of
               Some date \<Rightarrow> [\<lparr>plot_id = path_name plot_dir, visit_date = date,
                               full_path = date_dir\<rparr>]
             | None \<Rightarrow> []))
          (filter (\<lambda>date_dir. w_is_dir w date_dir \<and> date_pattern_match (path_name date_dir))
             (w_iterdir w plot_dir))))
       (filter (w_is_dir w) (w_iterdir w base)))
   \<and> (\<forall>n. length n = 8 \<and> list_all is_digit n \<longrightarrow> date_pattern_match n)
   \<and> (\<forall>n. length (filter is_digit n) \<noteq> 8 \<longrightarrow> \<not> date_pattern_match n)
   \<and> ((\<forall>p \<in> set (w_iterdir w base). w_is_dir w p \<longrightarrow>
          (\<forall>d \<in> set (w_iterdir w p).
              \<not> (w_is_dir w d \<and> date_pattern_match (path_name d)
                  \<and> w_to_datetime_ymd w (path_name d) \<noteq> None)))
        \<longrightarrow> parse_directory_structure w base = [])"
proof -
  have eq: "parse_directory_structure w base =
     concat (map (\<lambda>plot_dir.
        concat (map (\<lambda>date_dir.
            (case w_to_datetime_ymd w (path_name date_dir) of
               Some date \<Rightarrow> [\<lparr>plot_id = path_name plot_dir, visit_date = date,
                               full_path = date_dir\<rparr>]
             | None \<Rightarrow> []))
          (filter (\<lambda>date_dir. w_is_dir w date_dir \<and> date_pattern_match (path_name date_dir))
             (w_iterdir w plot_dir))))
       (filter (w_is_dir w) (w_iterdir w base)))"
    by (simp add: parse_directory_structure_def scan_plot_dirs_eq)
  have none: "(\<forall>p \<in> set (w_iterdir w base). w_is_dir w p \<longrightarrow>
          (\<forall>d \<in> set (w_iterdir w p).
              \<not> (w_is_dir w d \<and> date_pattern_match (path_name d)
                  \<and> w_to_datetime_ymd w (path_name d) \<noteq> None)))
        \<longrightarrow> parse_directory_structure w base = []"
    unfolding eq by (auto split: option.splits)
  from eq none show ?thesis
    using date_pattern_eight date_pattern_digits by blast
qed

text \<open>
  Two valid dates under \<^verbatim>\<open>PlotA\<close>; \<^verbatim>\<open>20231301\<close> passes the pattern and is
  rejected by the parser, \<^verbatim>\<open>2023010\<close> fails the pattern; a directory with no
  plot directory gives the empty table.
\<close>

theorem parse_directory_structure_visits_witness:
  "parse_directory_structure scan_world [''root''] =
     [\<lparr>plot_id = ''PlotA'', visit_date = 1672531200000000000,
        full_path = [''root'', ''PlotA'', ''20230101'']\<rparr>,
      \<lparr>plot_id = ''PlotA'', visit_date = 1686787200000000000,
        full_path = [''root'', ''PlotA'', ''20230615'']\<rparr>]
   \<and> date_pattern_match ''20231301'' \<and> \<not> date_pattern_match ''2023010''
   \<and> parse_directory_structure scan_world [''root'', ''PlotB''] = []"
proof -
  have m: "date_pattern_match ''20230101''" "date_pattern_match ''20230615''"
    "date_pattern_match ''20231301''" "\<not> date_pattern_match ''2023010''"
    "\<not> date_pattern_match ''badname''"
    by (simp_all add: date_pattern_match_def is_digit_def)
  have a: "parse_directory_structure scan_world [''root''] =
     [\<lparr>plot_id = ''PlotA'', visit_date = 1672531200000000000,
        full_path = [''root'', ''PlotA'', ''20230101'']\<rparr>,
      \<lparr>plot_id = ''PlotA'', visit_date = 1686787200000000000,
        full_path = [''root'', ''PlotA'', ''20230615'']\<rparr>]"
    using conjunct1 [OF parse_directory_structure_visits [of scan_world "[''root'']"]] m
    by (simp add: scan_world_def empty_world_def path_name_def)
  have h: "\<forall>p \<in> set (w_iterdir scan_world [''root'', ''PlotB'']). w_is_dir scan_world p \<longrightarrow>
          (\<forall>d \<in> set (w_iterdir scan_world p).
              \<not> (w_is_dir scan_world d \<and> date_pattern_match (path_name d)
                  \<and> w_to_datetime_ymd scan_world (path_name d) \<noteq> None))"
    by (simp add: scan_world_def empty_world_def)
  from parse_directory_structure_visits [of scan_world "[''root'', ''PlotB'']"] h
  have b: "parse_directory_structure scan_world [''root'', ''PlotB''] = []" by blast
  from a b m show ?thesis by simp
qed

lemma loc_mask_map: "loc_mask df (map P df) = filter P df"
  by (induction df) (simp_all add: loc_mask_def)

lemma map2_replicate_True:
  "map2 (\<and>) (replicate (length df) True) (map P df) = map P df"
  by (induction df) simp_all

lemma map2_conj_map: "map2 (\<and>) (map P df) (map Q df) = map (\<lambda>r. P r \<and> Q r) df"
  by (induction df) simp_all

lemma column_ge_naive:
  "\<forall>b. lo \<noteq> AtTz b \<Longrightarrow>
   column_ge (map visit_date df) lo = Inr (map (\<lambda>r. \<exists>b. lo = At b \<and> b \<le> visit_date r) df)"
  by (cases lo) (simp_all add: comp_def)

lemma column_le_naive:
  "\<forall>b. hi \<noteq> AtTz b \<Longrightarrow>
   column_le (map visit_date df) hi = Inr (map (\<lambda>r. \<exists>b. hi = At b \<and> visit_date r \<le> b) df)"
  by (cases hi) (simp_all add: comp_def)

text \<open>
  What \<^verbatim>\<open>filter_date\<close> does when the bounds that are given parse to time stamps
  without a time zone (or to \<^verbatim>\<open>NaT\<close>): it returns the rows of the table, in order,
  whose date is at or after the start and at or before the end, a bound that is not
  given imposing nothing; with neither bound it returns the table itself.
\<close>

lemma filter_date_range:
  assumes "case start of None \<Rightarrow> True
           | Some s \<Rightarrow> to_datetime s = Inr lo \<and> (\<forall>b. lo \<noteq> AtTz b)"
    and "case end' of None \<Rightarrow> True
         | Some t \<Rightarrow> to_datetime t = Inr hi \<and> (\<forall>b. hi \<noteq> AtTz b)"
  shows "(\<exists>res. filter_date to_datetime df start end' = Inr res
           \<and> res = filter (\<lambda>r. (start \<noteq> None \<longrightarrow> (\<exists>b. lo = At b \<and> b \<le> visit_date r))
                              \<and> (end' \<noteq> None \<longrightarrow> (\<exists>b. hi = At b \<and> visit_date r \<le> b))) df
           \<and> set res \<subseteq> set df
           \<and> (\<forall>r \<in> set res.
                 (start \<noteq> None \<longrightarrow> (\<exists>b. lo = At b \<and> b \<le> visit_date r))
                 \<and> (end' \<noteq> None \<longrightarrow> (\<exists>b. hi = At b \<and> visit_date r \<le> b))))
     \<and> filter_date to_datetime df None None = Inr df"
proof -
  let ?P = "\<lambda>r. (start \<noteq> None \<longrightarrow> (\<exists>b. lo = At b \<and> b \<le> visit_date r))
                \<and> (end' \<noteq> None \<longrightarrow> (\<exists>b. hi = At b \<and> visit_date r \<le> b))"
  have eq: "filter_date to_datetime df start end' = Inr (filter ?P df)"
  proof (cases start)
    case None
    note s = this
    show ?thesis
    proof (cases end')
      case None
      with s show ?thesis by (simp add: filter_date_def)
    next
      case (Some t)
      with s assms show ?thesis
        by (simp add: filter_date_def column_le_naive map2_replicate_True loc_mask_map)
    qed
  next
    case (Some a)
    note s = this
    show ?thesis
    proof (cases end')
      case None
      with s assms show ?thesis
        by (simp add: filter_date_def column_ge_naive map2_replicate_True loc_mask_map)
    next
      case (Some t)
      with s assms show ?thesis
        by (simp add: filter_date_def column_ge_naive column_le_naive map2_replicate_True
            map2_conj_map loc_mask_map)
    qed
  qed
  have none: "filter_date to_datetime df None None = Inr df"
    by (simp add: filter_date_def)
  from eq none show ?thesis by auto
qed

lemma filter_date_range_example:
  "filter_date (\<lambda>s. if s = ''2023-01-01'' then Inr (At 10) else if s = ''2023-12-31'' then Inr (At 20)
                     else Inl ValueError)
     [\<lparr>plot_id = ''A'', visit_date = 5, full_path = []\<rparr>,
      \<lparr>plot_id = ''A'', visit_date = 10, full_path = []\<rparr>,
      \<lparr>plot_id = ''B'', visit_date = 20, full_path = []\<rparr>,
      \<lparr>plot_id = ''B'', visit_date = 21, full_path = []\<rparr>]
     (Some ''2023-01-01'') (Some ''2023-12-31'')
   = Inr [\<lparr>plot_id = ''A'', visit_date = 10, full_path = []\<rparr>,
          \<lparr>plot_id = ''B'', visit_date = 20, full_path = []\<rparr>]"
  using filter_date_range [where start = "Some ''2023-01-01''" and to_datetime =
      "\<lambda>s. if s = ''2023-01-01'' then Inr (At 10) else if s = ''2023-12-31'' then Inr (At 20)
                     else Inl ValueError" and lo = "At 10" and end' = "Some ''2023-12-31''"
      and hi = "At 20" and df =
      "[\<lparr>plot_id = ''A'', visit_date = 5, full_path = []\<rparr>,
      \<lparr>plot_id = ''A'', visit_date = 10, full_path = []\<rparr>,
      \<lparr>plot_id = ''B'', visit_date = 20, full_path = []\<rparr>,
      \<lparr>plot_id = ''B'', visit_date = 21, full_path = []\<rparr>]"]
  by simp

text \<open>
  Claim C8. The claim has \<^verbatim>\<open>filter_date\<close> return the rows within the bounds for
  every table and all bounds, and the function's documentation accepts every format
  that \<^verbatim>\<open>pd.to_datetime\<close> understands. The text \<^verbatim>\<open>2023-01-01T00:00:00Z\<close> is
  understood, as the time stamp of that instant with the time zone UTC. Comparing the
  column of dates, which has no time zone, with it at line 156 raises
  \<^verbatim>\<open>TypeError\<close>: for the table of one visit of 15 June 2023 and this start no
  table is returned.
\<close>

theorem filter_date_aware_bound:
  "filter_date
     (\<lambda>s. if s = ''2023-01-01T00:00:00Z'' then Inr (AtTz 1672531200000000000)
           else Inl ValueError)
     [\<lparr>plot_id = ''PlotA'', visit_date = 1686787200000000000,
       full_path = [''root'', ''PlotA'', ''20230615'']\<rparr>]
     (Some ''2023-01-01T00:00:00Z'') None
   = Inl TypeError"
  by (simp add: filter_date_def)

section \<open>Properties of extract_multispec_analysis\<close>


lemma startswith_append: "startswith (p @ s) p"
  by (simp add: startswith_def)

lemma startswith_trans:
  assumes "startswith c (p @ q)" shows "startswith c p"
proof -
  from assms have "take (length p + length q) c = p @ q"
    by (simp add: startswith_def)
  then have "take (length p) (take (length p + length q) c) = take (length p) (p @ q)"
    by simp
  then show ?thesis by (simp add: startswith_def min_def)
qed

lemma add_band_fields_other:
  "\<not> startswith c prefix \<Longrightarrow> map_of (add_band_fields prefix band flds rec) c = map_of rec c"
proof (induction flds arbitrary: rec)
  case Nil
  then show ?case by simp
next
  case (Cons field rest)
  from Cons.prems have "c \<noteq> prefix @ field"
    using startswith_append by blast
  with Cons show ?case by (simp add: map_of_dict_set)
qed

lemma add_bands_other:
  "\<not> startswith c ''Band'' \<Longrightarrow> map_of (add_bands bs flds rec) c = map_of rec c"
proof (induction bs arbitrary: rec)
  case Nil
  then show ?case by simp
next
  case (Cons b bs)
  obtain k band where b: "b = (k, band)" by (cases b)
  from Cons.prems have "\<not> startswith c (''Band'' @ (key_str k @ ''_''))"
    using startswith_trans by blast
  then have "map_of (add_band_fields (''Band'' @ key_str k @ ''_'') band flds rec) c = map_of rec c"
    by (rule add_band_fields_other)
  with Cons b show ?case by simp
qed

lemma visit_record_base:
  "map_of (visit_record r flds bm) ''plot_id'' = Some (Val (PStr (plot_id r)))"
  "map_of (visit_record r flds bm) ''visit_date'' = Some (Stamp (visit_date r))"
  "map_of (visit_record r flds bm) ''full_path'' = Some (Val (PStr (path_str (full_path r))))"
  by (simp_all add: visit_record_def Let_def add_bands_other map_of_dict_set startswith_def)

lemma visit_record_no_bands:
  "visit_record r flds [] =
     [(''plot_id'', Val (PStr (plot_id r))), (''visit_date'', Stamp (visit_date r)),
      (''full_path'', Val (PStr (path_str (full_path r))))]"
  by (simp add: visit_record_def)

lemma analysis_loop_Inr:
  "analysis_loop w flds n tbl data = Inr res \<Longrightarrow>
   res = data @ map (\<lambda>p. visit_record (snd p) flds
                      (snd (extract_multispec_bands w (full_path (snd p)) (Some flds) n))) tbl"
proof (induction tbl arbitrary: data)
  case Nil
  then show ?case by simp
next
  case (Cons a tbl)
  obtain idx r where a: "a = (idx, r)" by (cases a)
  let ?rec = "visit_record r flds (snd (extract_multispec_bands w (full_path r) (Some flds) n))"
  from Cons.prems a have "analysis_loop w flds n tbl (data @ [?rec]) = Inr res"
    by (simp add: Let_def split: sum.splits if_splits)
  then have "res = (data @ [?rec]) @ map (\<lambda>p. visit_record (snd p) flds
                      (snd (extract_multispec_bands w (full_path (snd p)) (Some flds) n))) tbl"
    by (rule Cons.IH)
  with a show ?case by simp
qed

lemma analysis_loop_int:
  "list_all int_label (map fst tbl) \<Longrightarrow> \<exists>res. analysis_loop w flds n tbl data = Inr res"
proof (induction tbl arbitrary: data)
  case Nil
  show ?case by simp
next
  case (Cons a tbl)
  obtain idx r where a: "a = (idx, r)" by (cases a)
  from Cons.prems a obtain i where i: "idx = IntLabel i" by (cases idx) simp_all
  let ?rec = "visit_record r flds (snd (extract_multispec_bands w (full_path r) (Some flds) n))"
  from Cons.prems have "list_all int_label (map fst tbl)" by simp
  then have "\<exists>res. analysis_loop w flds n tbl (data @ [?rec]) = Inr res"
    by (rule Cons.IH)
  with a i show ?case by (simp add: Let_def)
qed

lemma extract_multispec_analysis_Inr:
  assumes "extract_multispec_analysis w plot_df fa n = Inr T"
  shows "df_rows T =
     map (\<lambda>p. visit_record (snd p) (case fa of None \<Rightarrow> DEFAULT_FIELDS | Some f \<Rightarrow> f)
            (snd (extract_multispec_bands w (full_path (snd p))
                    (Some (case fa of None \<Rightarrow> DEFAULT_FIELDS | Some f \<Rightarrow> f)) n))) plot_df"
proof -
  let ?F = "case fa of None \<Rightarrow> DEFAULT_FIELDS | Some f \<Rightarrow> f"
  from assms obtain data where d: "analysis_loop w ?F n plot_df [] = Inr data"
    and t: "T = DataFrame data"
    by (auto simp: extract_multispec_analysis_def Let_def split: sum.splits)
  from d have "data = [] @ map (\<lambda>p. visit_record (snd p) ?F
                      (snd (extract_multispec_bands w (full_path (snd p)) (Some ?F) n))) plot_df"
    by (rule analysis_loop_Inr)
  with t show ?thesis by (simp add: DataFrame_def)
qed

lemma extract_multispec_analysis_int:
  assumes "list_all int_label (map fst plot_df)"
  shows "\<exists>T. extract_multispec_analysis w plot_df fa n = Inr T"
proof -
  let ?F = "case fa of None \<Rightarrow> DEFAULT_FIELDS | Some f \<Rightarrow> f"
  from assms have "\<exists>res. analysis_loop w ?F n plot_df [] = Inr res"
    by (rule analysis_loop_int)
  then show ?thesis by (auto simp: extract_multispec_analysis_def Let_def)
qed

text \<open>
  On a table whose row labels are integers \<^verbatim>\<open>extract_multispec_analysis\<close> returns
  a table with one record per row of the input, in the order of the rows, each with
  the row's plot, date and path; a visit for which no band is found still gives its
  record, with these three columns only.
\<close>

lemma extract_multispec_analysis_rows:
  assumes "list_all int_label (map fst plot_df)"
  shows "\<exists>T. extract_multispec_analysis w plot_df fields_arg n = Inr T
   \<and> length (df_rows T) = length plot_df
   \<and> map (\<lambda>rec. (row_cell rec ''plot_id'', row_cell rec ''visit_date'', row_cell rec ''full_path''))
        (df_rows T)
     = map (\<lambda>p. (Val (PStr (plot_id (snd p))), Stamp (visit_date (snd p)),
                  Val (PStr (path_str (full_path (snd p)))))) plot_df
   \<and> (\<forall>i < length plot_df.
         snd (extract_multispec_bands w (full_path (snd (plot_df ! i)))
                (Some (case fields_arg of None \<Rightarrow> DEFAULT_FIELDS | Some f \<Rightarrow> f)) n) = []
         \<longrightarrow> df_rows T ! i =
               [(''plot_id'', Val (PStr (plot_id (snd (plot_df ! i))))),
                (''visit_date'', Stamp (visit_date (snd (plot_df ! i)))),
                (''full_path'', Val (PStr (path_str (full_path (snd (plot_df ! i))))))])"
proof -
  from assms obtain T where t: "extract_multispec_analysis w plot_df fields_arg n = Inr T"
    using extract_multispec_analysis_int by blast
  note r = extract_multispec_analysis_Inr [OF t]
  have "length (df_rows T) = length plot_df
   \<and> map (\<lambda>rec. (row_cell rec ''plot_id'', row_cell rec ''visit_date'', row_cell rec ''full_path''))
        (df_rows T)
     = map (\<lambda>p. (Val (PStr (plot_id (snd p))), Stamp (visit_date (snd p)),
                  Val (PStr (path_str (full_path (snd p)))))) plot_df
   \<and> (\<forall>i < length plot_df.
         snd (extract_multispec_bands w (full_path (snd (plot_df ! i)))
                (Some (case fields_arg of None \<Rightarrow> DEFAULT_FIELDS | Some f \<Rightarrow> f)) n) = []
         \<longrightarrow> df_rows T ! i =
               [(''plot_id'', Val (PStr (plot_id (snd (plot_df ! i))))),
                (''visit_date'', Stamp (visit_date (snd (plot_df ! i)))),
                (''full_path'', Val (PStr (path_str (full_path (snd (plot_df ! i))))))])"
    by (simp add: r row_cell_def visit_record_base visit_record_no_bands)
  with t show ?thesis by blast
qed

section \<open>Properties of extract_multispec_bands\<close>


lemma range_11: "[1 .. (11::int)] = [1, 2, 3, 4, 5, 6, 7, 8, 9, 10, 11]"
  by code_simp

lemma str_int_to_11:
  "str_int 1 = ''1''" "str_int 2 = ''2''" "str_int 3 = ''3''" "str_int 4 = ''4''"
  "str_int 5 = ''5''" "str_int 6 = ''6''" "str_int 7 = ''7''" "str_int 8 = ''8''"
  "str_int 9 = ''9''" "str_int 10 = ''10''" "str_int 11 = ''11''"
  by code_simp+

lemma band_world_files:
  "find_band_files band_world [''v''] 11 =
     [[''v'', ''cam_1.tif''], [''v'', ''cam_2.tif''], [''v'', ''cam_3.tif'']]"
  by (simp add: find_band_files_def band_world_def empty_world_def range_11 str_int_to_11)

lemma band_world_first: "first_existing band_world (multispec_paths [''v'']) = Some [''v'']"
  by (simp add: multispec_paths_def band_world_def empty_world_def)

lemma band_world_result:
  "extract_multispec_bands band_world [''v''] fa 11 =
     ([exiftool_j [''v/cam_1.tif''] 10,
       exiftool_j [''v/cam_1.tif'', ''v/cam_2.tif'', ''v/cam_3.tif''] 30],
      [(KInt 0, band_data (case fa of None \<Rightarrow> DEFAULT_FIELDS | Some f \<Rightarrow> f)
                  [(''SourceFile'', PStr ''v/cam_3.tif''), (''RigCameraIndex'', PInt 0),
                    (''BandName'', PStr ''Red''), (''Software'', PStr ''v1.0'')] ''v/cam_3.tif'')])"
  apply (simp add: extract_multispec_bands_def band_world_first band_world_files bands_try_def Let_def)
  apply (simp add: band_world_def empty_world_def exiftool_j_def strip_nonempty_def is_space_def
      dict_get_def key_eq_def source_file_def)
  done

lemma band_data_default_example:
  "band_data DEFAULT_FIELDS
     [(''SourceFile'', PStr ''v/cam_3.tif''), (''RigCameraIndex'', PInt 0),
      (''BandName'', PStr ''Red''), (''Software'', PStr ''v1.0'')] ''v/cam_3.tif''
   = [(''filename'', PStr ''cam_3.tif''), (''FileName'', PNone),
      (''BandName'', PStr ''Red''), (''CentralWavelength'', PNone),
      (''WavelengthFWHM'', PNone)]"
  by (simp add: DEFAULT_FIELDS_def band_data_def dict_get_def str_path_name_def)

lemma keys_foldl_dict_set:
  "fst ` set (foldl (\<lambda>bd field. dict_set field (g field) bd) d flds) = fst ` set d \<union> set flds"
  by (induction flds arbitrary: d) (simp_all add: keys_dict_set)

lemma band_data_keys: "fst ` set (band_data flds m src) = insert ''filename'' (set flds)"
  by (simp add: band_data_def keys_foldl_dict_set)

lemma bands_set_vals: "snd ` set (bands_set k v d) \<subseteq> insert v (snd ` set d)"
proof (induction d)
  case Nil
  show ?case by simp
next
  case (Cons a d)
  obtain k' v' where a: "a = (k', v')" by (cases a)
  show ?case
  proof (cases "key_eq k k'")
    case True
    with a show ?thesis by auto
  next
    case False
    with a Cons show ?thesis by auto
  qed
qed

lemma organize_bands_skip:
  "dict_get m ''RigCameraIndex'' = PNone \<Longrightarrow>
   organize_bands flds (PDict m # rest) acc = organize_bands flds rest acc"
  by simp

lemma organize_bands_keep:
  "dict_get m ''RigCameraIndex'' \<noteq> PNone \<Longrightarrow>
   organize_bands flds (PDict m # rest) acc =
     (case source_file m of
        None \<Rightarrow> Inl TypeError
      | Some sf \<Rightarrow>
          (case as_key (dict_get m ''RigCameraIndex'') of
             None \<Rightarrow> Inl TypeError
           | Some k \<Rightarrow> organize_bands flds rest (bands_set k (band_data flds m sf) acc)))"
  by simp

lemma organize_bands_not_dict:
  "(\<forall>m. v \<noteq> PDict m) \<Longrightarrow> organize_bands flds (v # rest) acc = Inl AttributeError"
  by (cases v) simp_all

lemma organize_bands_vals:
  "organize_bands flds items acc = Inr bm \<Longrightarrow> \<forall>b \<in> snd ` set acc. P b \<Longrightarrow>
   \<forall>m src. P (band_data flds m src) \<Longrightarrow> \<forall>b \<in> snd ` set bm. P b"
proof (induction items arbitrary: acc)
  case Nil
  then show ?case by simp
next
  case (Cons v rest)
  show ?case
  proof (cases "\<exists>m. v = PDict m")
    case False
    then have "organize_bands flds (v # rest) acc = Inl AttributeError"
      by (simp add: organize_bands_not_dict)
    with Cons.prems(1) show ?thesis by simp
  next
    case True
    then obtain m where v: "v = PDict m" by blast
    show ?thesis
    proof (cases "dict_get m ''RigCameraIndex'' = PNone")
      case True
      with Cons.prems(1) v have "organize_bands flds rest acc = Inr bm"
        by (simp only: organize_bands_skip)
      from Cons.IH [OF this Cons.prems(2) Cons.prems(3)] show ?thesis .
    next
      case False
      from Cons.prems(1) v have e: "(case source_file m of
        None \<Rightarrow> Inl TypeError
      | Some sf \<Rightarrow>
          (case as_key (dict_get m ''RigCameraIndex'') of
             None \<Rightarrow> Inl TypeError
           | Some k \<Rightarrow> organize_bands flds rest (bands_set k (band_data flds m sf) acc))) = Inr bm"
        by (simp only: organize_bands_keep [OF False])
      then obtain sf where sf: "source_file m = Some sf"
        by (cases "source_file m") simp_all
      with e obtain k where k: "as_key (dict_get m ''RigCameraIndex'') = Some k"
        by (cases "as_key (dict_get m ''RigCameraIndex'')") simp_all
      from e sf k have r: "organize_bands flds rest (bands_set k (band_data flds m sf) acc) = Inr bm"
        by simp
      have "\<forall>b \<in> snd ` set (bands_set k (band_data flds m sf) acc). P b"
      proof
        fix b
        assume "b \<in> snd ` set (bands_set k (band_data flds m sf) acc)"
        then have "b \<in> insert (band_data flds m sf) (snd ` set acc)"
          using bands_set_vals [of k "band_data flds m sf" acc] by (rule rev_subsetD)
        then have "b = band_data flds m sf \<or> b \<in> snd ` set acc" by simp
        then show "P b"
        proof
          assume "b = band_data flds m sf"
          with Cons.prems(3) show "P b" by simp
        next
          assume "b \<in> snd ` set acc"
          with Cons.prems(2) show "P b" by (rule bspec)
        qed
      qed
      from Cons.IH [OF r this Cons.prems(3)] show ?thesis .
    qed
  qed
qed


lemma bands_try_result:
  assumes "snd (bands_try w flds bf) = Inr bm"
  shows "bm = [] \<or> (\<exists>items. organize_bands flds items [] = Inr bm)"
  using assms
  by (auto simp: bands_try_def Let_def
      split: proc_outcome.splits if_splits option.splits sum.splits)

lemma extract_multispec_bands_result:
  "snd (extract_multispec_bands w d fa n) = [] \<or>
   (\<exists>items. organize_bands (case fa of None \<Rightarrow> DEFAULT_FIELDS | Some f \<Rightarrow> f) items []
       = Inr (snd (extract_multispec_bands w d fa n)))"
proof (cases "first_existing w (multispec_paths d)")
  case None
  then show ?thesis by (simp add: extract_multispec_bands_def)
next
  case (Some vp)
  let ?flds = "case fa of None \<Rightarrow> DEFAULT_FIELDS | Some f \<Rightarrow> f"
  let ?bf = "find_band_files w vp n"
  show ?thesis
  proof (cases "?bf = []")
    case True
    with Some show ?thesis by (simp add: extract_multispec_bands_def)
  next
    case False
    obtain calls r where t: "bands_try w ?flds ?bf = (calls, r)" by (cases "bands_try w ?flds ?bf")
    show ?thesis
    proof (cases r)
      case (Inl e)
      with Some False t show ?thesis by (simp add: extract_multispec_bands_def)
    next
      case (Inr bm)
      with Some False t have s: "snd (extract_multispec_bands w d fa n) = bm"
        by (simp add: extract_multispec_bands_def)
      from t Inr have "snd (bands_try w ?flds ?bf) = Inr bm" by simp
      from bands_try_result [OF this] s show ?thesis by simp
    qed
  qed
qed

lemma extract_multispec_bands_vals:
  assumes "\<forall>m src. P (band_data (case fa of None \<Rightarrow> DEFAULT_FIELDS | Some f \<Rightarrow> f) m src)"
  shows "\<forall>b \<in> snd ` set (snd (extract_multispec_bands w d fa n)). P b"
proof -
  let ?flds = "case fa of None \<Rightarrow> DEFAULT_FIELDS | Some f \<Rightarrow> f"
  from extract_multispec_bands_result [of w d fa n] show ?thesis
  proof
    assume "snd (extract_multispec_bands w d fa n) = []"
    then show ?thesis by simp
  next
    assume "\<exists>items. organize_bands ?flds items [] = Inr (snd (extract_multispec_bands w d fa n))"
    then obtain items where
      o: "organize_bands ?flds items [] = Inr (snd (extract_multispec_bands w d fa n))" ..
    have e: "\<forall>b \<in> snd ` set ([] :: bands). P b" by simp
    from organize_bands_vals [OF o e assms] show ?thesis .
  qed
qed

lemma dict_get_absent:
  assumes "k \<notin> fst ` set d" shows "dict_get d k = PNone"
proof -
  from assms have "map_of d k = None" by (simp add: map_of_eq_None_iff)
  then show ?thesis by (simp add: dict_get_def)
qed

lemma visit_record_software:
  "bm \<noteq> [] \<Longrightarrow> dict_get (snd (hd bm)) ''Software'' = PNone \<Longrightarrow>
   map_of (visit_record r flds bm) ''Software'' = Some (Val PNone)"
  by (simp add: visit_record_def Let_def add_bands_other map_of_dict_set startswith_def)

lemma visit_record_swversion:
  "bm \<noteq> [] \<Longrightarrow> dict_get (snd (hd bm)) ''SwVersion'' = PNone \<Longrightarrow>
   map_of (visit_record r flds bm) ''SwVersion'' = Some (Val PNone)"
  by (simp add: visit_record_def Let_def add_bands_other map_of_dict_set startswith_def)

lemma visit_record_absent:
  assumes "\<forall>b \<in> snd ` set bm. ''Software'' \<notin> fst ` set b \<and> ''SwVersion'' \<notin> fst ` set b"
  shows "row_cell (visit_record r flds bm) ''Software'' = Val PNone
       \<and> row_cell (visit_record r flds bm) ''SwVersion'' = Val PNone"
proof (cases "bm = []")
  case True
  then show ?thesis by (simp add: visit_record_def row_cell_def)
next
  case False
  then have "snd (hd bm) \<in> snd ` set bm" by simp
  with assms have "''Software'' \<notin> fst ` set (snd (hd bm)) \<and> ''SwVersion'' \<notin> fst ` set (snd (hd bm))"
    by (rule bspec)
  then have "dict_get (snd (hd bm)) ''Software'' = PNone"
    and "dict_get (snd (hd bm)) ''SwVersion'' = PNone"
    by (simp_all add: dict_get_absent)
  with False show ?thesis
    by (simp add: row_cell_def visit_record_software visit_record_swversion)
qed

text \<open>
  Claim C3. With the default field list, every record of the table that
  \<^verbatim>\<open>extract_multispec_analysis\<close> returns has a missing \<^verbatim>\<open>Software\<close> and a
  missing \<^verbatim>\<open>SwVersion\<close>, whether or not bands were found for the visit: the keys
  of every per-band dictionary are \<^verbatim>\<open>filename\<close> and the four default fields, so
  the lookup of \<^verbatim>\<open>Software\<close> in the first band finds nothing. For a table
  with integer row labels the function does return a table, with a record for every
  row.
\<close>

theorem default_fields_software_absent:
  "(\<forall>T. extract_multispec_analysis w (plot_df :: (label \<times> 'a visit_scheme) list) None n = Inr T
        \<longrightarrow> (\<forall>rec \<in> set (df_rows T).
               row_cell rec ''Software'' = Val PNone \<and> row_cell rec ''SwVersion'' = Val PNone))
   \<and> (list_all int_label (map fst plot_df)
        \<longrightarrow> (\<exists>T. extract_multispec_analysis w plot_df None n = Inr T
                 \<and> length (df_rows T) = length plot_df))
   \<and> (\<forall>b \<in> snd ` set (snd (extract_multispec_bands w d (Some DEFAULT_FIELDS) n)).
         fst ` set b = insert ''filename'' (set DEFAULT_FIELDS))"
proof -
  have keys: "\<forall>b \<in> snd ` set (snd (extract_multispec_bands w d (Some DEFAULT_FIELDS) n)).
      fst ` set b = insert ''filename'' (set DEFAULT_FIELDS)" for d
    by (rule extract_multispec_bands_vals) (simp add: band_data_keys)
  have no: "\<forall>b \<in> snd ` set (snd (extract_multispec_bands w d (Some DEFAULT_FIELDS) n)).
      ''Software'' \<notin> fst ` set b \<and> ''SwVersion'' \<notin> fst ` set b" for d
  proof
    fix b
    assume "b \<in> snd ` set (snd (extract_multispec_bands w d (Some DEFAULT_FIELDS) n))"
    with keys [of d] have "fst ` set b = insert ''filename'' (set DEFAULT_FIELDS)"
      by (rule bspec)
    then show "''Software'' \<notin> fst ` set b \<and> ''SwVersion'' \<notin> fst ` set b"
      by (simp add: DEFAULT_FIELDS_def)
  qed
  have absent: "\<forall>T. extract_multispec_analysis w plot_df None n = Inr T
        \<longrightarrow> (\<forall>rec \<in> set (df_rows T).
               row_cell rec ''Software'' = Val PNone \<and> row_cell rec ''SwVersion'' = Val PNone)"
  proof (intro allI impI ballI)
    fix T rec
    assume t: "extract_multispec_analysis w plot_df None n = Inr T"
      and m: "rec \<in> set (df_rows T)"
    from extract_multispec_analysis_Inr [OF t] m
    obtain r :: "'a visit_scheme" where "rec = visit_record r DEFAULT_FIELDS
        (snd (extract_multispec_bands w (full_path r) (Some DEFAULT_FIELDS) n))"
      by auto
    with visit_record_absent [OF no [of "full_path r"], of r DEFAULT_FIELDS]
    show "row_cell rec ''Software'' = Val PNone \<and> row_cell rec ''SwVersion'' = Val PNone"
      by simp
  qed
  have total: "list_all int_label (map fst plot_df)
        \<longrightarrow> (\<exists>T. extract_multispec_analysis w plot_df None n = Inr T
                 \<and> length (df_rows T) = length plot_df)"
  proof
    assume "list_all int_label (map fst plot_df)"
    then obtain T where t: "extract_multispec_analysis w plot_df None n = Inr T"
      using extract_multispec_analysis_int by blast
    from extract_multispec_analysis_Inr [OF t] have "length (df_rows T) = length plot_df"
      by simp
    with t show "\<exists>T. extract_multispec_analysis w plot_df None n = Inr T
                 \<and> length (df_rows T) = length plot_df"
      by blast
  qed
  show ?thesis by (rule conjI [OF absent conjI [OF total keys [of d]]])
qed


lemma key_eq_sym: "key_eq a b = key_eq b a"
  by (cases "key_num a"; cases "key_num b") (auto simp: key_eq_def)

lemma key_eq_trans: "key_eq a b \<Longrightarrow> key_eq b c \<Longrightarrow> key_eq a c"
  by (cases "key_num a"; cases "key_num b"; cases "key_num c") (auto simp: key_eq_def)

lemma bands_get_set:
  "bands_get (bands_set k0 v d) k = (if key_eq k k0 then Some v else bands_get d k)"
proof (induction d)
  case Nil
  show ?case by simp
next
  case (Cons a d)
  obtain k' v' where a: "a = (k', v')" by (cases a)
  show ?case
  proof (cases "key_eq k0 k'")
    case True
    then have "key_eq k k' = key_eq k k0"
      using key_eq_trans key_eq_sym by blast
    with True a show ?thesis by simp
  next
    case False
    then have "key_eq k k0 \<Longrightarrow> \<not> key_eq k k'"
      using key_eq_trans key_eq_sym by blast
    with False a Cons show ?thesis by auto
  qed
qed

lemma length_bands_set: "length (bands_set k v d) \<le> Suc (length d)"
  by (induction d) auto

lemma organize_bands_last:
  assumes "\<forall>m \<in> set recs. dict_get m ''RigCameraIndex'' \<noteq> PNone \<longrightarrow>
             source_file m \<noteq> None \<and> as_key (dict_get m ''RigCameraIndex'') \<noteq> None"
  shows "\<exists>bm. organize_bands flds (map PDict recs) acc = Inr bm
     \<and> (\<forall>k. bands_get bm k =
          (case filter (\<lambda>m. dict_get m ''RigCameraIndex'' \<noteq> PNone \<and>
                    (case as_key (dict_get m ''RigCameraIndex'') of
                       None \<Rightarrow> False | Some k' \<Rightarrow> key_eq k k')) recs of
             [] \<Rightarrow> bands_get acc k
           | x # xs \<Rightarrow>
               (case source_file (last (x # xs)) of
                  None \<Rightarrow> None
                | Some sf \<Rightarrow> Some (band_data flds (last (x # xs)) sf))))
     \<and> length bm \<le> length acc
          + length (filter (\<lambda>m. dict_get m ''RigCameraIndex'' \<noteq> PNone) recs)"
  using assms
proof (induction recs arbitrary: acc)
  case Nil
  show ?case by simp
next
  case (Cons m rest)
  let ?carries = "\<lambda>k m. dict_get m ''RigCameraIndex'' \<noteq> PNone \<and>
                    (case as_key (dict_get m ''RigCameraIndex'') of
                       None \<Rightarrow> False | Some k' \<Rightarrow> key_eq k k')"
  from Cons.prems have wf: "\<forall>m \<in> set rest. dict_get m ''RigCameraIndex'' \<noteq> PNone \<longrightarrow>
             source_file m \<noteq> None \<and> as_key (dict_get m ''RigCameraIndex'') \<noteq> None"
    by simp
  show ?case
  proof (cases "dict_get m ''RigCameraIndex'' = PNone")
    case True
    from Cons.IH [OF wf, of acc] obtain bm where
      bm: "organize_bands flds (map PDict rest) acc = Inr bm"
      and g: "\<forall>k. bands_get bm k =
          (case filter (?carries k) rest of
             [] \<Rightarrow> bands_get acc k
           | x # xs \<Rightarrow>
               (case source_file (last (x # xs)) of
                  None \<Rightarrow> None
                | Some sf \<Rightarrow> Some (band_data flds (last (x # xs)) sf)))"
      and l: "length bm \<le> length acc
          + length (filter (\<lambda>m. dict_get m ''RigCameraIndex'' \<noteq> PNone) rest)"
      by blast
    from bm True have "organize_bands flds (map PDict (m # rest)) acc = Inr bm"
      by simp
    moreover from True have "\<And>k. filter (?carries k) (m # rest) = filter (?carries k) rest"
      by simp
    moreover from True have "filter (\<lambda>m. dict_get m ''RigCameraIndex'' \<noteq> PNone) (m # rest)
        = filter (\<lambda>m. dict_get m ''RigCameraIndex'' \<noteq> PNone) rest"
      by simp
    ultimately show ?thesis using g l by (simp del: organize_bands.simps)
  next
    case False
    with Cons.prems obtain sf k0 where sf: "source_file m = Some sf"
      and k0: "as_key (dict_get m ''RigCameraIndex'') = Some k0"
      by auto
    let ?acc = "bands_set k0 (band_data flds m sf) acc"
    from Cons.IH [OF wf, of ?acc] obtain bm where
      bm: "organize_bands flds (map PDict rest) ?acc = Inr bm"
      and g: "\<forall>k. bands_get bm k =
          (case filter (?carries k) rest of
             [] \<Rightarrow> bands_get ?acc k
           | x # xs \<Rightarrow>
               (case source_file (last (x # xs)) of
                  None \<Rightarrow> None
                | Some sf \<Rightarrow> Some (band_data flds (last (x # xs)) sf)))"
      and l: "length bm \<le> length ?acc
          + length (filter (\<lambda>m. dict_get m ''RigCameraIndex'' \<noteq> PNone) rest)"
      by blast
    from bm False sf k0 have o: "organize_bands flds (map PDict (m # rest)) acc = Inr bm"
      by simp
    have c: "\<And>k. filter (?carries k) (m # rest) =
        (if key_eq k k0 then m # filter (?carries k) rest else filter (?carries k) rest)"
      using False k0 by simp
    have g': "\<forall>k. bands_get bm k =
          (case filter (?carries k) (m # rest) of
             [] \<Rightarrow> bands_get acc k
           | x # xs \<Rightarrow>
               (case source_file (last (x # xs)) of
                  None \<Rightarrow> None
                | Some sf \<Rightarrow> Some (band_data flds (last (x # xs)) sf)))"
    proof
      fix k
      show "bands_get bm k =
          (case filter (?carries k) (m # rest) of
             [] \<Rightarrow> bands_get acc k
           | x # xs \<Rightarrow>
               (case source_file (last (x # xs)) of
                  None \<Rightarrow> None
                | Some sf \<Rightarrow> Some (band_data flds (last (x # xs)) sf)))"
      proof (cases "filter (?carries k) rest")
        case Nil
        with g have "bands_get bm k = bands_get ?acc k" by simp
        with Nil sf show ?thesis unfolding c by (simp add: bands_get_set)
      next
        case (Cons y ys)
        with g have "bands_get bm k =
            (case source_file (last (y # ys)) of
                  None \<Rightarrow> None
                | Some sf \<Rightarrow> Some (band_data flds (last (y # ys)) sf))" by simp
        with Cons show ?thesis unfolding c by (simp split: option.splits)
      qed
    qed
    have "length ?acc \<le> Suc (length acc)" by (rule length_bands_set)
    with l False have l': "length bm \<le> length acc
          + length (filter (\<lambda>m. dict_get m ''RigCameraIndex'' \<noteq> PNone) (m # rest))"
      by simp
    from o g' l' show ?thesis by blast
  qed
qed

lemma extract_multispec_bands_success:
  assumes "first_existing w (multispec_paths d) = Some vp"
    and "find_band_files w vp n \<noteq> []"
    and "w_run w (exiftool_j [path_str (hd (find_band_files w vp n))] 10) = Completed 0 o1 e1"
    and "w_run w (exiftool_j (map path_str (find_band_files w vp n)) 30) = Completed 0 out err"
    and "strip_nonempty out"
    and "w_json_loads w out = Some (PList items)"
  shows "snd (extract_multispec_bands w d fa n) =
     (case organize_bands (case fa of None \<Rightarrow> DEFAULT_FIELDS | Some f \<Rightarrow> f) items [] of
        Inl e \<Rightarrow> [] | Inr bm \<Rightarrow> bm)"
  using assms
  by (simp add: extract_multispec_bands_def bands_try_def Let_def hd_map split: sum.splits)

text \<open>
  Claim C6. When the probe and the batch call succeed and the batch output decodes to
  a list of records, of which those that carry a \<^verbatim>\<open>RigCameraIndex\<close> carry a
  hashable one and a \<^verbatim>\<open>SourceFile\<close> that is a string or absent, the returned
  dictionary holds under a key \<open>k\<close> the data of the last record, in output order,
  whose index equals \<open>k\<close>, and nothing when no record has that index. Records
  without an index (absent or \<^verbatim>\<open>null\<close>) add no entry.
\<close>

theorem bands_last_write_wins:
  assumes "first_existing w (multispec_paths d) = Some vp"
    and "find_band_files w vp n \<noteq> []"
    and "w_run w (exiftool_j [path_str (hd (find_band_files w vp n))] 10) = Completed 0 o1 e1"
    and "w_run w (exiftool_j (map path_str (find_band_files w vp n)) 30) = Completed 0 out err"
    and "strip_nonempty out"
    and "w_json_loads w out = Some (PList (map PDict recs))"
    and "\<forall>m \<in> set recs. dict_get m ''RigCameraIndex'' \<noteq> PNone \<longrightarrow>
           source_file m \<noteq> None \<and> as_key (dict_get m ''RigCameraIndex'') \<noteq> None"
  shows "bands_get (snd (extract_multispec_bands w d fields_arg n)) k =
          (case filter (\<lambda>m. dict_get m ''RigCameraIndex'' \<noteq> PNone \<and>
                    (case as_key (dict_get m ''RigCameraIndex'') of
                       None \<Rightarrow> False | Some k' \<Rightarrow> key_eq k k')) recs of
             [] \<Rightarrow> None
           | x # xs \<Rightarrow>
               (case source_file (last (x # xs)) of
                  None \<Rightarrow> None
                | Some sf \<Rightarrow>
                    Some (band_data (case fields_arg of None \<Rightarrow> DEFAULT_FIELDS | Some f \<Rightarrow> f)
                            (last (x # xs)) sf)))
     \<and> length (snd (extract_multispec_bands w d fields_arg n))
         \<le> length (filter (\<lambda>m. dict_get m ''RigCameraIndex'' \<noteq> PNone) recs)"
proof -
  let ?flds = "case fields_arg of None \<Rightarrow> DEFAULT_FIELDS | Some f \<Rightarrow> f"
  from organize_bands_last [OF assms(7), of ?flds "[]"] obtain bm where
    bm: "organize_bands ?flds (map PDict recs) [] = Inr bm"
    and g: "\<forall>k. bands_get bm k =
          (case filter (\<lambda>m. dict_get m ''RigCameraIndex'' \<noteq> PNone \<and>
                    (case as_key (dict_get m ''RigCameraIndex'') of
                       None \<Rightarrow> False | Some k' \<Rightarrow> key_eq k k')) recs of
             [] \<Rightarrow> bands_get [] k
           | x # xs \<Rightarrow>
               (case source_file (last (x # xs)) of
                  None \<Rightarrow> None
                | Some sf \<Rightarrow> Some (band_data ?flds (last (x # xs)) sf)))"
    and l: "length bm \<le> length ([] :: bands)
          + length (filter (\<lambda>m. dict_get m ''RigCameraIndex'' \<noteq> PNone) recs)"
    by blast
  from extract_multispec_bands_success [OF assms(1-6), of fields_arg] bm
  have s: "snd (extract_multispec_bands w d fields_arg n) = bm" by simp
  from g have "bands_get bm k =
          (case filter (\<lambda>m. dict_get m ''RigCameraIndex'' \<noteq> PNone \<and>
                    (case as_key (dict_get m ''RigCameraIndex'') of
                       None \<Rightarrow> False | Some k' \<Rightarrow> key_eq k k')) recs of
             [] \<Rightarrow> None
           | x # xs \<Rightarrow>
               (case source_file (last (x # xs)) of
                  None \<Rightarrow> None
                | Some sf \<Rightarrow> Some (band_data ?flds (last (x # xs)) sf)))"
    by (simp cong: list.case_cong)
  with s l show ?thesis by simp
qed

text \<open>
  Three records, the first and the third with index 0, the second with none: the
  entry for 0 is the third record's.
\<close>

theorem bands_last_write_wins_witness:
  "bands_get (snd (extract_multispec_bands band_world [''v''] None 11)) (KInt 0) =
     Some [(''filename'', PStr ''cam_3.tif''), (''FileName'', PNone),
           (''BandName'', PStr ''Red''), (''CentralWavelength'', PNone),
           (''WavelengthFWHM'', PNone)]
   \<and> length (snd (extract_multispec_bands band_world [''v''] None 11)) \<le> 2"
proof -
  let ?recs = "[[(''SourceFile'', PStr ''v/cam_1.tif''), (''RigCameraIndex'', PInt 0),
                    (''BandName'', PStr ''Blue''), (''Software'', PStr ''v1.0'')],
             [(''SourceFile'', PStr ''v/cam_2.tif''), (''BandName'', PStr ''Green'')],
             [(''SourceFile'', PStr ''v/cam_3.tif''), (''RigCameraIndex'', PInt 0),
                    (''BandName'', PStr ''Red''), (''Software'', PStr ''v1.0'')]]"
  have 1: "first_existing band_world (multispec_paths [''v'']) = Some [''v'']"
    by (rule band_world_first)
  have 2: "find_band_files band_world [''v''] 11 \<noteq> []"
    by (simp add: band_world_files)
  have 3: "w_run band_world (exiftool_j [path_str (hd (find_band_files band_world [''v''] 11))] 10)
      = Completed 0 ''[probe]'' []"
    by (simp add: band_world_files) (simp add: band_world_def)
  have 4: "w_run band_world (exiftool_j (map path_str (find_band_files band_world [''v''] 11)) 30)
      = Completed 0 ''[batch]'' []"
    by (simp add: band_world_files) (simp add: band_world_def exiftool_j_def)
  have 5: "strip_nonempty ''[batch]''"
    by (simp add: strip_nonempty_def is_space_def)
  have 6: "w_json_loads band_world ''[batch]'' = Some (PList (map PDict ?recs))"
    by (simp add: band_world_def)
  have 7: "\<forall>m \<in> set ?recs. dict_get m ''RigCameraIndex'' \<noteq> PNone \<longrightarrow>
           source_file m \<noteq> None \<and> as_key (dict_get m ''RigCameraIndex'') \<noteq> None"
    by (simp add: dict_get_def source_file_def)
  from bands_last_write_wins [OF 1 2 3 4 5 6 7, of None "KInt 0"] show ?thesis
    by (simp add: dict_get_def source_file_def key_eq_def band_data_default_example)
qed

text \<open>
  Claim C1, as the code has it. With a non-empty list of located files,
  \<^verbatim>\<open>extract_multispec_bands\<close> first calls the tool on the first file alone. If that
  call raises, nothing else is called; if it exits with a code other than 0, the
  version check follows and the batch is never run; if it exits with 0, the tool is
  called once more, on all files together. The batch call is made at most once and
  there are never more than two calls, however many files were found.
\<close>

theorem extract_multispec_bands_calls:
  assumes "first_existing w (multispec_paths d) = Some vp"
    and "find_band_files w vp n \<noteq> []"
  shows "fst (extract_multispec_bands w d fields_arg n) =
     (let probe = exiftool_j [path_str (hd (find_band_files w vp n))] 10;
          batch = exiftool_j (map path_str (find_band_files w vp n)) 30
      in case w_run w probe of
           Raises e \<Rightarrow> [probe]
         | Completed returncode out err \<Rightarrow>
             if returncode \<noteq> 0 then [probe, exiftool_ver] else [probe, batch])
   \<and> length (filter (\<lambda>c. c = exiftool_j (map path_str (find_band_files w vp n)) 30)
               (fst (extract_multispec_bands w d fields_arg n))) \<le> 1
   \<and> length (fst (extract_multispec_bands w d fields_arg n)) \<le> 2"
proof -
  have ne: "exiftool_j [path_str (hd (find_band_files w vp n))] 10
      \<noteq> exiftool_j (map path_str (find_band_files w vp n)) 30"
    by (simp add: exiftool_j_def)
  have ne': "exiftool_ver \<noteq> exiftool_j (map path_str (find_band_files w vp n)) 30"
    by (simp add: exiftool_j_def exiftool_ver_def)
  have eq: "fst (extract_multispec_bands w d fields_arg n) =
     (let probe = exiftool_j [path_str (hd (find_band_files w vp n))] 10;
          batch = exiftool_j (map path_str (find_band_files w vp n)) 30
      in case w_run w probe of
           Raises e \<Rightarrow> [probe]
         | Completed returncode out err \<Rightarrow>
             if returncode \<noteq> 0 then [probe, exiftool_ver] else [probe, batch])"
    using assms
    by (simp add: extract_multispec_bands_def bands_try_def Let_def hd_map
        split: proc_outcome.splits sum.splits prod.splits)
  show ?thesis
    unfolding eq using ne ne' by (simp add: Let_def split: proc_outcome.splits)
qed

text \<open>A tool that exits with code 1: the probe, then the version check.\<close>

theorem extract_multispec_bands_calls_witness:
  "fst (extract_multispec_bands fail_world [''v''] None 11) =
     [exiftool_j [''v/cam_1.tif''] 10, exiftool_ver]"
proof -
  have 1: "first_existing fail_world (multispec_paths [''v'']) = Some [''v'']"
    by (simp add: multispec_paths_def fail_world_def band_world_def empty_world_def)
  have f: "find_band_files fail_world [''v''] 11 =
     [[''v'', ''cam_1.tif''], [''v'', ''cam_2.tif''], [''v'', ''cam_3.tif'']]"
    by (simp add: find_band_files_def fail_world_def band_world_def empty_world_def
        range_11 str_int_to_11)
  then have 2: "find_band_files fail_world [''v''] 11 \<noteq> []" by simp
  from extract_multispec_bands_calls [OF 1 2, of None] show ?thesis
    by (simp add: f) (simp add: fail_world_def)
qed

text \<open>
  Claim C1 as it is worded, one call, on the batch: with three files found and a
  working tool there are two calls, the first on \<^verbatim>\<open>cam_1.tif\<close> alone.
\<close>

theorem extract_multispec_bands_two_calls_counterexample:
  "find_band_files band_world [''v''] 11 =
     [[''v'', ''cam_1.tif''], [''v'', ''cam_2.tif''], [''v'', ''cam_3.tif'']]
   \<and> fst (extract_multispec_bands band_world [''v''] None 11) =
     [exiftool_j [''v/cam_1.tif''] 10,
      exiftool_j [''v/cam_1.tif'', ''v/cam_2.tif'', ''v/cam_3.tif''] 30]
   \<and> fst (extract_multispec_bands band_world [''v''] None 11) \<noteq>
     [exiftool_j [''v/cam_1.tif'', ''v/cam_2.tif'', ''v/cam_3.tif''] 30]"
  by (simp add: band_world_files band_world_result)


lemma band_world_no_dir: "extract_multispec_bands band_world [''u''] fa 11 = ([], [])"
  by (simp add: extract_multispec_bands_def multispec_paths_def band_world_def empty_world_def)

text \<open>
  Two visits with the labels 0 and 1, the second in a directory that does not exist:
  two records, the second with the three base columns only.
\<close>

lemma extract_multispec_analysis_rows_example:
  "\<exists>T. extract_multispec_analysis band_world
       [(IntLabel 0, \<lparr>plot_id = ''P1'', visit_date = 0, full_path = [''v'']\<rparr>),
        (IntLabel 1, \<lparr>plot_id = ''P2'', visit_date = 1, full_path = [''u'']\<rparr>)] None 11 = Inr T
     \<and> length (df_rows T) = 2
     \<and> df_rows T ! 1 = [(''plot_id'', Val (PStr ''P2'')), (''visit_date'', Stamp 1),
                          (''full_path'', Val (PStr ''u''))]"
proof -
  let ?df = "[(IntLabel 0, \<lparr>plot_id = ''P1'', visit_date = 0, full_path = [''v'']\<rparr>),
        (IntLabel 1, \<lparr>plot_id = ''P2'', visit_date = 1, full_path = [''u'']\<rparr>)]"
  have "list_all int_label (map fst ?df)" by simp
  from extract_multispec_analysis_int [OF this, of band_world None 11]
  obtain T where t: "extract_multispec_analysis band_world ?df None 11 = Inr T" by blast
  have e: "snd (extract_multispec_bands band_world [''u''] (Some DEFAULT_FIELDS) 11) = []"
    by (simp add: band_world_no_dir)
  from extract_multispec_analysis_Inr [OF t] e
  have "length (df_rows T) = 2
     \<and> df_rows T ! 1 = [(''plot_id'', Val (PStr ''P2'')), (''visit_date'', Stamp 1),
                          (''full_path'', Val (PStr ''u''))]"
    by (simp add: visit_record_no_bands)
  with t show ?thesis by blast
qed

text \<open>
  Claim C7. The claim has \<^verbatim>\<open>extract_multispec_analysis\<close> produce one record per
  row for every input table. The loop reads the row label: line 518 computes
  \<^verbatim>\<open>idx % 5\<close> before the row is processed. For the table of the two visits above
  indexed by its plot column (labels \<^verbatim>\<open>P1\<close> and \<^verbatim>\<open>P2\<close>) this is the formatting
  of a string that holds no percent sign, which raises \<^verbatim>\<open>TypeError\<close>: the function
  returns no table and no record. The same two rows with the labels 0 and 1 give a
  table of two records.
\<close>

theorem extract_multispec_analysis_string_labels:
  "extract_multispec_analysis band_world
       [(StrLabel ''P1'', \<lparr>plot_id = ''P1'', visit_date = 0, full_path = [''v'']\<rparr>),
        (StrLabel ''P2'', \<lparr>plot_id = ''P2'', visit_date = 1, full_path = [''u'']\<rparr>)] None 11
     = Inl TypeError
   \<and> (\<exists>T. extract_multispec_analysis band_world
       [(IntLabel 0, \<lparr>plot_id = ''P1'', visit_date = 0, full_path = [''v'']\<rparr>),
        (IntLabel 1, \<lparr>plot_id = ''P2'', visit_date = 1, full_path = [''u'']\<rparr>)] None 11 = Inr T
        \<and> length (df_rows T) = 2)"
proof -
  have "extract_multispec_analysis band_world
       [(StrLabel ''P1'', \<lparr>plot_id = ''P1'', visit_date = 0, full_path = [''v'']\<rparr>),
        (StrLabel ''P2'', \<lparr>plot_id = ''P2'', visit_date = 1, full_path = [''u'']\<rparr>)] None 11
     = Inl TypeError"
    by (simp add: extract_multispec_analysis_def)
  with extract_multispec_analysis_rows_example show ?thesis by blast
qed

text \<open>
  A visit whose band record carries \<^verbatim>\<open>Software\<close> in the tool's output: the band
  is found, a table is returned, and the visit's \<^verbatim>\<open>Software\<close> and
  \<^verbatim>\<open>SwVersion\<close> are missing.
\<close>

theorem default_fields_software_absent_witness:
  "snd (extract_multispec_bands band_world [''v''] (Some DEFAULT_FIELDS) 11) =
     [(KInt 0, [(''filename'', PStr ''cam_3.tif''), (''FileName'', PNone),
           (''BandName'', PStr ''Red''), (''CentralWavelength'', PNone),
           (''WavelengthFWHM'', PNone)])]
   \<and> (\<exists>T. extract_multispec_analysis band_world
          [(IntLabel 0, \<lparr>plot_id = ''P1'', visit_date = 0, full_path = [''v'']\<rparr>)] None 11 = Inr T
        \<and> length (df_rows T) = 1
        \<and> row_cell (hd (df_rows T)) ''Software'' = Val PNone
        \<and> row_cell (hd (df_rows T)) ''SwVersion'' = Val PNone)"
proof -
  let ?df = "[(IntLabel 0, \<lparr>plot_id = ''P1'', visit_date = 0, full_path = [''v'']\<rparr>)]"
  have b: "snd (extract_multispec_bands band_world [''v''] (Some DEFAULT_FIELDS) 11) =
     [(KInt 0, [(''filename'', PStr ''cam_3.tif''), (''FileName'', PNone),
           (''BandName'', PStr ''Red''), (''CentralWavelength'', PNone),
           (''WavelengthFWHM'', PNone)])]"
    by (simp add: band_world_result band_data_default_example)
  note c3 = default_fields_software_absent [of band_world ?df 11 "[''v'']"]
  have i: "list_all int_label (map fst ?df)" by simp
  from c3 have "list_all int_label (map fst ?df)
        \<longrightarrow> (\<exists>T. extract_multispec_analysis band_world ?df None 11 = Inr T
                 \<and> length (df_rows T) = length ?df)"
    by (rule conjunct1 [OF conjunct2])
  from this i have "\<exists>T. extract_multispec_analysis band_world ?df None 11 = Inr T
                 \<and> length (df_rows T) = length ?df"
    by (rule mp)
  then obtain T where t: "extract_multispec_analysis band_world ?df None 11 = Inr T"
    and l: "length (df_rows T) = 1"
    by auto
  from c3 have "\<forall>T. extract_multispec_analysis band_world ?df None 11 = Inr T
        \<longrightarrow> (\<forall>rec \<in> set (df_rows T).
               row_cell rec ''Software'' = Val PNone \<and> row_cell rec ''SwVersion'' = Val PNone)"
    by (rule conjunct1)
  then have "extract_multispec_analysis band_world ?df None 11 = Inr T
        \<longrightarrow> (\<forall>rec \<in> set (df_rows T).
               row_cell rec ''Software'' = Val PNone \<and> row_cell rec ''SwVersion'' = Val PNone)"
    by (rule spec)
  from this t have a: "\<forall>rec \<in> set (df_rows T).
               row_cell rec ''Software'' = Val PNone \<and> row_cell rec ''SwVersion'' = Val PNone"
    by (rule mp)
  from l have "df_rows T \<noteq> []" by auto
  then have "hd (df_rows T) \<in> set (df_rows T)" by (rule hd_in_set)
  with a have "row_cell (hd (df_rows T)) ''Software'' = Val PNone
      \<and> row_cell (hd (df_rows T)) ''SwVersion'' = Val PNone"
    by (rule bspec)
  with t l have "\<exists>T. extract_multispec_analysis band_world ?df None 11 = Inr T
        \<and> length (df_rows T) = 1
        \<and> row_cell (hd (df_rows T)) ''Software'' = Val PNone
        \<and> row_cell (hd (df_rows T)) ''SwVersion'' = Val PNone"
    by blast
  with b show ?thesis by (rule conjI)
qed

section \<open>Properties of compare_band_assignments and create_band_table\<close>


lemma format_columns_labels:
  "pv_index (format_columns P wl cols pv) = pv_index pv
   \<and> pv_columns (format_columns P wl cols pv) = pv_columns pv"
  by (induction cols arbitrary: pv) simp_all

lemma format_columns_at:
  "distinct cols \<Longrightarrow>
   pv_at (format_columns P wl cols pv) r c =
     (if c \<in> set cols \<and> c \<in> set (pv_columns pv)
      then (if r \<in> set (pv_index wl) then format_cell P (pv_at pv r c) (pv_at wl r c)
            else Val PNone)
      else pv_at pv r c)"
proof (induction cols arbitrary: pv)
  case Nil
  show ?case by simp
next
  case (Cons col rest)
  then have d: "distinct rest" and n: "col \<notin> set rest" by simp_all
  show ?case
  proof (cases "col \<in> set (pv_columns pv)")
    case False
    with Cons.IH [OF d, of pv] show ?thesis by auto
  next
    case True
    let ?pv = "pv\<lparr>pv_at := (\<lambda>r c.
                 if c = col
                 then (if r \<in> set (pv_index wl)
                       then format_cell P (pv_at pv r col) (pv_at wl r col)
                       else Val PNone)
                 else pv_at pv r c)\<rparr>"
    have "pv_at (format_columns P wl (col # rest) pv) r c = pv_at (format_columns P wl rest ?pv) r c"
      using True by simp
    also have "\<dots> = (if c \<in> set rest \<and> c \<in> set (pv_columns ?pv)
      then (if r \<in> set (pv_index wl) then format_cell P (pv_at ?pv r c) (pv_at wl r c)
            else Val PNone)
      else pv_at ?pv r c)"
      by (rule Cons.IH [OF d])
    finally show ?thesis using n True by auto
  qed
qed

text \<open>
  Claim C10. For a table without a \<^verbatim>\<open>Software\<close> column,
  \<^verbatim>\<open>compare_band_assignments\<close> prints the error line and returns the empty
  table; it raises nothing.
\<close>

theorem compare_band_assignments_no_software:
  assumes "''Software'' \<notin> set (df_columns df)"
  shows "compare_band_assignments P df =
           ([''Error: Software column not found in DataFrame''], Inr empty_frame)
         \<and> frame_empty empty_frame"
  using assms by (simp add: compare_band_assignments_def frame_empty_def empty_frame_def)

text \<open>
  The cells of the compact table. When the comparison table is not empty,
  \<^verbatim>\<open>create_band_table\<close> returns the pivot of the band names, firmware versions
  as rows and band indices as columns. In every column that the wavelength pivot has
  too, every cell, observed or not, is built from the texts that \<^verbatim>\<open>astype(str)\<close>
  gives for the band-name cell and the wavelength cell: name, \<^verbatim>\<open> (\<close>, wavelength,
  \<^verbatim>\<open> nm)\<close>. A cell with no observation is therefore the text made of the
  conversion of the missing value, twice; it is missing only if the conversion keeps
  a missing value missing. The other columns are those of the band-name pivot.
\<close>

lemma create_band_table_cells:
  assumes "compare_band_assignments P df = (printed, Inr summary_df)"
    and "\<not> frame_empty summary_df"
    and "pivot_df = pd_pivot_table P summary_df ''Software'' ''RigCameraIndex'' ''BandName''"
    and "wavelength_df =
           pd_pivot_table P summary_df ''Software'' ''RigCameraIndex'' ''CentralWavelength''"
    and "distinct (pv_columns wavelength_df)"
  shows "\<exists>T. create_band_table P df = (printed, Inr T)
     \<and> pv_index T = pv_index pivot_df \<and> pv_columns T = pv_columns pivot_df
     \<and> (\<forall>r c. c \<in> set (pv_columns pivot_df) \<and> c \<in> set (pv_columns wavelength_df)
                \<and> r \<in> set (pv_index wavelength_df) \<longrightarrow>
           pv_at T r c =
             (case (pd_astype_str P (pv_at pivot_df r c),
                    pd_astype_str P (pv_at wavelength_df r c)) of
                (Some x, Some y) \<Rightarrow> Val (PStr (x @ '' ('' @ y @ '' nm)''))
              | _ \<Rightarrow> Val PNone))
     \<and> (\<forall>r c. c \<in> set (pv_columns pivot_df) \<and> c \<in> set (pv_columns wavelength_df)
                \<and> r \<in> set (pv_index wavelength_df)
                \<and> pv_at pivot_df r c = Val PNone \<and> pv_at wavelength_df r c = Val PNone \<longrightarrow>
           pv_at T r c =
             (case pd_astype_str P (Val PNone) of
                Some x \<Rightarrow> Val (PStr (x @ '' ('' @ x @ '' nm)''))
              | None \<Rightarrow> Val PNone))
     \<and> (\<forall>r c. c \<notin> set (pv_columns wavelength_df) \<longrightarrow> pv_at T r c = pv_at pivot_df r c)"
proof -
  let ?T = "format_columns P wavelength_df (pv_columns wavelength_df) pivot_df"
  have t: "create_band_table P df = (printed, Inr ?T)"
    using assms(1-4) by (simp add: create_band_table_def Let_def)
  have l: "pv_index ?T = pv_index pivot_df \<and> pv_columns ?T = pv_columns pivot_df"
    by (rule format_columns_labels)
  have a: "\<And>r c. pv_at ?T r c =
     (if c \<in> set (pv_columns wavelength_df) \<and> c \<in> set (pv_columns pivot_df)
      then (if r \<in> set (pv_index wavelength_df)
            then format_cell P (pv_at pivot_df r c) (pv_at wavelength_df r c)
            else Val PNone)
      else pv_at pivot_df r c)"
    by (rule format_columns_at [OF assms(5)])
  from t l a show ?thesis by (simp add: format_cell_def split: option.splits)
qed

lemma firmware_compare:
  "compare_band_assignments (pandas2 number_str) firmware_table = ([], Inr firmware_summary)"
  by code_simp

lemma firmware_pivots:
  "pv_index (pd_pivot_table (pandas2 number_str) firmware_summary ''Software''
       ''RigCameraIndex'' ''BandName'') = [Val (PStr ''v1''), Val (PStr ''v2'')]"
  "pv_columns (pd_pivot_table (pandas2 number_str) firmware_summary ''Software''
       ''RigCameraIndex'' ''BandName'') = [Val (PStr ''0''), Val (PStr ''1'')]"
  "pv_index (pd_pivot_table (pandas2 number_str) firmware_summary ''Software''
       ''RigCameraIndex'' ''CentralWavelength'') = [Val (PStr ''v1''), Val (PStr ''v2'')]"
  "pv_columns (pd_pivot_table (pandas2 number_str) firmware_summary ''Software''
       ''RigCameraIndex'' ''CentralWavelength'') = [Val (PStr ''0''), Val (PStr ''1'')]"
  "pv_at (pd_pivot_table (pandas2 number_str) firmware_summary ''Software''
       ''RigCameraIndex'' ''BandName'') (Val (PStr ''v1'')) (Val (PStr ''1''))
     = Val (PStr ''Green'')"
  "pv_at (pd_pivot_table (pandas2 number_str) firmware_summary ''Software''
       ''RigCameraIndex'' ''CentralWavelength'') (Val (PStr ''v1'')) (Val (PStr ''1''))
     = Val (PStr ''560'')"
  "pv_at (pd_pivot_table (pandas2 number_str) firmware_summary ''Software''
       ''RigCameraIndex'' ''BandName'') (Val (PStr ''v2'')) (Val (PStr ''1'')) = Val PNone"
  "pv_at (pd_pivot_table (pandas2 number_str) firmware_summary ''Software''
       ''RigCameraIndex'' ''CentralWavelength'') (Val (PStr ''v2'')) (Val (PStr ''1''))
     = Val PNone"
  by code_simp+

text \<open>The observed cell of firmware \<^verbatim>\<open>v1\<close> and band 1.\<close>

lemma create_band_table_cells_example:
  "(case create_band_table (pandas2 number_str) firmware_table of
      (printed, Inr T) \<Rightarrow> pv_at T (Val (PStr ''v1'')) (Val (PStr ''1''))
    | (printed, Inl e) \<Rightarrow> Val PNone) = Val (PStr ''Green (560 nm)'')"
proof -
  let ?P = "pandas2 number_str"
  let ?pv = "pd_pivot_table ?P firmware_summary ''Software'' ''RigCameraIndex'' ''BandName''"
  let ?wl = "pd_pivot_table ?P firmware_summary ''Software'' ''RigCameraIndex''
       ''CentralWavelength''"
  have e: "\<not> frame_empty firmware_summary"
    by (simp add: frame_empty_def firmware_summary_def)
  have d: "distinct (pv_columns ?wl)"
    by (simp add: firmware_pivots)
  from create_band_table_cells [OF firmware_compare e refl refl d] obtain T where
    t: "create_band_table ?P firmware_table = ([], Inr T)"
    and c: "\<forall>r c. c \<in> set (pv_columns ?pv) \<and> c \<in> set (pv_columns ?wl)
                \<and> r \<in> set (pv_index ?wl) \<longrightarrow>
           pv_at T r c =
             (case (pd_astype_str ?P (pv_at ?pv r c),
                    pd_astype_str ?P (pv_at ?wl r c)) of
                (Some x, Some y) \<Rightarrow> Val (PStr (x @ '' ('' @ y @ '' nm)''))
              | _ \<Rightarrow> Val PNone)"
    by blast
  have "pv_at T (Val (PStr ''v1'')) (Val (PStr ''1'')) =
             (case (pd_astype_str ?P (pv_at ?pv (Val (PStr ''v1'')) (Val (PStr ''1''))),
                    pd_astype_str ?P (pv_at ?wl (Val (PStr ''v1'')) (Val (PStr ''1'')))) of
                (Some x, Some y) \<Rightarrow> Val (PStr (x @ '' ('' @ y @ '' nm)''))
              | _ \<Rightarrow> Val PNone)"
  proof -
    have m: "Val (PStr ''1'') \<in> set (pv_columns ?pv) \<and> Val (PStr ''1'') \<in> set (pv_columns ?wl)
        \<and> Val (PStr ''v1'') \<in> set (pv_index ?wl)"
      by (simp add: firmware_pivots)
    from c have "Val (PStr ''1'') \<in> set (pv_columns ?pv) \<and> Val (PStr ''1'') \<in> set (pv_columns ?wl)
        \<and> Val (PStr ''v1'') \<in> set (pv_index ?wl) \<longrightarrow>
      pv_at T (Val (PStr ''v1'')) (Val (PStr ''1'')) =
             (case (pd_astype_str ?P (pv_at ?pv (Val (PStr ''v1'')) (Val (PStr ''1''))),
                    pd_astype_str ?P (pv_at ?wl (Val (PStr ''v1'')) (Val (PStr ''1'')))) of
                (Some x, Some y) \<Rightarrow> Val (PStr (x @ '' ('' @ y @ '' nm)''))
              | _ \<Rightarrow> Val PNone)"
      by blast
    from this m show ?thesis by (rule mp)
  qed
  moreover have "\<And>s. pd_astype_str ?P (Val (PStr s)) = Some s"
    by (simp add: pandas2_def)
  ultimately have "pv_at T (Val (PStr ''v1'')) (Val (PStr ''1'')) = Val (PStr ''Green (560 nm)'')"
    by (simp add: firmware_pivots)
  with t show ?thesis by simp
qed

text \<open>
  Claim C2. The claim has every cell with no observation remain empty. Lines 655 to
  657 apply \<^verbatim>\<open>astype(str)\<close> to the whole columns of the two pivots, with no mask
  for their missing cells, and under pandas 2 that conversion writes a missing cell
  as the text \<^verbatim>\<open>nan\<close>. In the example firmware \<^verbatim>\<open>v2\<close> has no record for band 1
  in the comparison table; its cell in the compact table is not empty, it reads
  \<^verbatim>\<open>nan (nan nm)\<close>, beside the observed cell \<^verbatim>\<open>Green (560 nm)\<close> of firmware
  \<^verbatim>\<open>v1\<close>.
\<close>

theorem create_band_table_unobserved_cell:
  "(case compare_band_assignments (pandas2 number_str) firmware_table of
      (printed, Inr summary_df) \<Rightarrow>
        filter (\<lambda>r. row_cell r ''Software'' = Val (PStr ''v2'')
                  \<and> row_cell r ''RigCameraIndex'' = Val (PStr ''1'')) (df_rows summary_df)
    | (printed, Inl e) \<Rightarrow> []) = []
   \<and> (case create_band_table (pandas2 number_str) firmware_table of
        (printed, Inr T) \<Rightarrow> pv_at T (Val (PStr ''v2'')) (Val (PStr ''1''))
      | (printed, Inl e) \<Rightarrow> Val PNone) = Val (PStr ''nan (nan nm)'')
   \<and> (case create_band_table (pandas2 number_str) firmware_table of
        (printed, Inr T) \<Rightarrow> pv_at T (Val (PStr ''v1'')) (Val (PStr ''1''))
      | (printed, Inl e) \<Rightarrow> Val PNone) = Val (PStr ''Green (560 nm)'')"
  by code_simp

text \<open>A table with the three base columns only.\<close>

theorem compare_band_assignments_no_software_witness:
  "compare_band_assignments (pandas2 (\<lambda>c. []))
     (DataFrame [[(''plot_id'', Val (PStr ''P1'')), (''visit_date'', Stamp 0),
                  (''full_path'', Val (PStr ''v''))]])
   = ([''Error: Software column not found in DataFrame''], Inr empty_frame)"
proof -
  have "''Software'' \<notin> set (df_columns
     (DataFrame [[(''plot_id'', Val (PStr ''P1'')), (''visit_date'', Stamp 0),
                  (''full_path'', Val (PStr ''v''))]]))"
    by (simp add: DataFrame_def)
  from compare_band_assignments_no_software [OF this, of "pandas2 (\<lambda>c. [])"]
  show ?thesis by simp
qed

end
